theory Spec2Isabelle
  imports Main
begin

section \<open>Tables of the schema\<close>

text \<open>
  Identifiers are the textual form of a UUID. A nullable column is an \<open>option\<close>.
  The tables are lists of rows, in insertion order.
\<close>

type_synonym uuid = string

record client_row =
  c_id :: uuid
  c_name :: string
  c_email :: string
  c_tenant_type :: "string option"
  c_created_by :: "uuid option"
  c_admin_user_id :: "uuid option"
  c_settings :: "(string \<times> string) list"

record auth_user =
  au_id :: uuid
  au_email :: string
  au_password :: string
  au_meta_name :: "string option"
  au_meta_tenant_level :: "string option"

record profile_row =
  p_user_id :: uuid
  p_display_name :: "string option"
  p_email :: "string option"
  p_client_id :: "uuid option"
  p_tenant_level :: "string option"

record role_row =
  r_id :: uuid
  r_name :: string

record user_role_row =
  ur_user_id :: uuid
  ur_role_id :: uuid

record audit_row =
  a_tenant_id :: "uuid option"
  a_performed_by :: "uuid option"
  a_action :: string
  a_details :: "(string \<times> string) list"

record db =
  clients :: "client_row list"
  auth_users :: "auth_user list"
  profiles :: "profile_row list"
  roles :: "role_row list"
  user_roles :: "user_role_row list"
  tenant_audit_log :: "audit_row list"

section \<open>Policy functions of the migrations\<close>

text \<open>
  \<open>is_super_admin\<close>: a row of \<open>user_roles\<close> joined with \<open>roles\<close> on the role id, for
  this user, whose role is named Super Admin.
\<close>

definition is_super_admin :: "db \<Rightarrow> uuid \<Rightarrow> bool" where
  "is_super_admin d user_uuid =
     list_ex (\<lambda>ur. list_ex (\<lambda>r. ur_role_id ur = r_id r \<and>
                  ur_user_id ur = user_uuid \<and> r_name r = ''Super Admin'') (roles d))
       (user_roles d)"

text \<open>
  \<open>is_tenant_admin\<close>: the profile of the user is in the client and the user holds the
  role named Tenant Admin. A comparison with SQL NULL is never true.
\<close>

definition is_tenant_admin :: "db \<Rightarrow> uuid \<Rightarrow> uuid option \<Rightarrow> bool" where
  "is_tenant_admin d user_uuid client_uuid =
     list_ex (\<lambda>p. list_ex (\<lambda>ur. list_ex (\<lambda>r.
         ur_user_id ur = p_user_id p \<and> ur_role_id ur = r_id r \<and>
         p_user_id p = user_uuid \<and>
         client_uuid \<noteq> None \<and> p_client_id p = client_uuid \<and>
         r_name r = ''Tenant Admin'') (roles d)) (user_roles d)) (profiles d)"

text \<open>
  \<open>can_access_client\<close>: the union of the super admin's row and of the rows of the
  user's profile in that client is not empty.
\<close>

definition can_access_client :: "db \<Rightarrow> uuid \<Rightarrow> uuid option \<Rightarrow> bool" where
  "can_access_client d user_uuid client_uuid =
     (is_super_admin d user_uuid \<or>
      list_ex (\<lambda>p. p_user_id p = user_uuid \<and>
                 client_uuid \<noteq> None \<and> p_client_id p = client_uuid) (profiles d))"

definition get_user_client_id :: "db \<Rightarrow> uuid \<Rightarrow> uuid option" where
  "get_user_client_id d user_uuid =
     (case filter (\<lambda>p. p_user_id p = user_uuid) (profiles d) of
        [] \<Rightarrow> None
      | p # _ \<Rightarrow> p_client_id p)"

section \<open>The environment of a request\<close>

text \<open>
  Every awaited call of the client library hands back a pair of data and error. A call
  can fail for reasons outside the store (transport, time-out); \<open>unavailable\<close> says
  which calls do so in this run. The identifiers and random values a run draws are part
  of the environment as well.
\<close>

datatype step =
    RpcIsSuperAdmin | RpcCanAccessClient | AuthCreateUser | ProfilesUpdate
  | RolesSelect | UserRolesInsert | UserRolesDelete
  | ClientsInsert | FunctionsInvoke | ClientsUpdate | AuditInsert

record env =
  SUPABASE_URL :: "string option"
  SUPABASE_SERVICE_ROLE_KEY :: "string option"
  unavailable :: "step \<Rightarrow> bool"
  new_client_id :: uuid
  new_user_id :: uuid
  randomUUID :: string
  random_index :: "nat \<Rightarrow> nat"

text \<open>
  \<open>random_index env i\<close> is the value of \<open>Math.floor(Math.random() * chars.length)\<close> in
  iteration \<open>i\<close> of the password loop.
\<close>

text \<open>
  The errors of the store: a row-level security violation names the table, a
  uniqueness violation the constraint, a foreign-key or check violation the table and
  the constraint. The last one stands for a call that did not reach the store.
\<close>

datatype pg_error =
    RlsViolation string
  | UniqueViolation string
  | ForeignKeyViolation string string
  | CheckViolation string string
  | Unavailable

text \<open>A name between double quotes, as the store writes it in its messages.\<close>

definition quoted :: "string \<Rightarrow> string" where
  "quoted name = CHR 0x22 # name @ [CHR 0x22]"

fun pg_message :: "pg_error \<Rightarrow> string" where
  "pg_message (RlsViolation t) =
     ''new row violates row-level security policy for table '' @ quoted t"
| "pg_message (UniqueViolation k) =
     ''duplicate key value violates unique constraint '' @ quoted k"
| "pg_message (ForeignKeyViolation t k) =
     ''insert or update on table '' @ quoted t @
     '' violates foreign key constraint '' @ quoted k"
| "pg_message (CheckViolation t k) =
     ''new row for relation '' @ quoted t @ '' violates check constraint '' @ quoted k"
| "pg_message Unavailable = ''TypeError: Failed to fetch''"

text \<open>JavaScript truthiness of a string that may be undefined or null.\<close>

definition truthy :: "string option \<Rightarrow> bool" where
  "truthy v = (case v of None \<Rightarrow> False | Some s \<Rightarrow> s \<noteq> [])"

text \<open>\<open>s.charAt(i)\<close>: the empty string out of range.\<close>

definition charAt :: "string \<Rightarrow> nat \<Rightarrow> string" where
  "charAt s i = (if i < length s then [s ! i] else [])"

text \<open>\<open>email.split('@')[0]\<close>\<close>

definition split_at_0 :: "string \<Rightarrow> string" where
  "split_at_0 email = takeWhile (\<lambda>c. c \<noteq> CHR ''@'') email"

section \<open>Constraints of the tables\<close>

definition tenant_level_check :: "string option \<Rightarrow> bool" where
  "tenant_level_check l =
     (case l of None \<Rightarrow> True
      | Some s \<Rightarrow> s \<in> set [''super_admin'', ''tenant_admin'', ''user''])"

definition tenant_type_check :: "string option \<Rightarrow> bool" where
  "tenant_type_check t =
     (case t of None \<Rightarrow> True | Some s \<Rightarrow> s \<in> set [''regular'', ''msp_tenant''])"

definition references_auth_users :: "db \<Rightarrow> uuid option \<Rightarrow> bool" where
  "references_auth_users d v =
     (case v of None \<Rightarrow> True | Some u \<Rightarrow> list_ex (\<lambda>a. au_id a = u) (auth_users d))"

definition references_clients :: "db \<Rightarrow> uuid option \<Rightarrow> bool" where
  "references_clients d v =
     (case v of None \<Rightarrow> True | Some c \<Rightarrow> list_ex (\<lambda>r. c_id r = c) (clients d))"

definition references_roles :: "db \<Rightarrow> uuid \<Rightarrow> bool" where
  "references_roles d v = list_ex (\<lambda>r. r_id r = v) (roles d)"

definition same_pair :: "user_role_row \<Rightarrow> user_role_row \<Rightarrow> bool" where
  "same_pair x y = (ur_user_id x = ur_user_id y \<and> ur_role_id x = ur_role_id y)"

text \<open>
  Insertion of rows into \<open>user_roles\<close>, one after the other: both foreign keys and the
  uniqueness of the pair (user, role). The statement is atomic: the first violation
  aborts it, and the caller keeps the table it had.
\<close>

fun user_roles_insert_rows :: "db \<Rightarrow> user_role_row list \<Rightarrow> pg_error + db" where
  "user_roles_insert_rows d [] = Inr d"
| "user_roles_insert_rows d (x # xs) =
     (if list_ex (same_pair x) (user_roles d)
        then Inl (UniqueViolation ''user_roles_user_id_role_id_key'')
      else if \<not> references_auth_users d (Some (ur_user_id x))
        then Inl (ForeignKeyViolation ''user_roles'' ''user_roles_user_id_fkey'')
      else if \<not> references_roles d (ur_role_id x)
        then Inl (ForeignKeyViolation ''user_roles'' ''user_roles_role_id_fkey'')
      else user_roles_insert_rows (d\<lparr>user_roles := user_roles d @ [x]\<rparr>) xs)"

section \<open>The Identity Directory\<close>

text \<open>
  The trigger \<open>handle_new_user\<close> of the migrations: after a row of \<open>auth.users\<close> is
  inserted, a profile is inserted for it, from the row's metadata. The profile's
  \<open>user_id\<close> is unique and its \<open>tenant_level\<close> is checked.
\<close>

definition handle_new_user :: "db \<Rightarrow> auth_user \<Rightarrow> pg_error + db" where
  "handle_new_user d NEW =
     (let row = \<lparr>p_user_id = au_id NEW,
                 p_display_name =
                   (case au_meta_name NEW of None \<Rightarrow> Some (au_email NEW) | Some n \<Rightarrow> Some n),
                 p_email = Some (au_email NEW),
                 p_client_id = None,
                 p_tenant_level =
                   (case au_meta_tenant_level NEW of None \<Rightarrow> Some ''user'' | Some l \<Rightarrow> Some l)\<rparr>
      in if \<not> tenant_level_check (p_tenant_level row)
           then Inl (CheckViolation ''profiles'' ''profiles_tenant_level_check'')
         else if list_ex (\<lambda>p. p_user_id p = p_user_id row) (profiles d)
           then Inl (UniqueViolation ''profiles_user_id_key'')
         else Inr (d\<lparr>profiles := profiles d @ [row]\<rparr>))"

text \<open>
  Modelled from the spec: the Identity Directory is an external collaborator whose code
  is not part of the repository. Its contract is
  \<open>createPrincipal(email, password, metadata) -> PrincipalID | DuplicateEmailError\<close>,
  with its own uniqueness guarantee on email. The identifier it issues is
  \<open>new_user_id\<close> of the environment; the insertion fires the trigger above in the same
  transaction, so a failing trigger leaves nothing behind. An error carries a message,
  empty when the service gave none.
\<close>

definition auth_admin_createUser ::
  "env \<Rightarrow> db \<Rightarrow> string \<Rightarrow> string \<Rightarrow> string \<Rightarrow> string \<Rightarrow> string + (uuid \<times> db)" where
  "auth_admin_createUser env d email password name tenant_level =
     (if unavailable env AuthCreateUser then Inl []
      else if list_ex (\<lambda>a. au_email a = email) (auth_users d)
        then Inl ''A user with this email address has already been registered''
      else if list_ex (\<lambda>a. au_id a = new_user_id env) (auth_users d)
        then Inl ''Database error creating new user''
      else
        (let NEW = \<lparr>au_id = new_user_id env, au_email = email, au_password = password,
                     au_meta_name = Some name, au_meta_tenant_level = Some tenant_level\<rparr>
         in case handle_new_user (d\<lparr>auth_users := auth_users d @ [NEW]\<rparr>) NEW of
              Inl e \<Rightarrow> Inl ''Database error creating new user''
            | Inr d' \<Rightarrow> Inr (au_id NEW, d')))"

section \<open>The edge function create-tenant-user\<close>

record CreateUserRequest =
  rq_email :: "string option"
  rq_password :: "string option"
  rq_display_name :: "string option"
  rq_client_id :: "uuid option"
  rq_tenant_level :: "string option"
  rq_role_names :: "string list option"

text \<open>
  A request: its method, the user the Authorization header resolves to (none when it
  resolves to nobody), and its body (none when the body is not JSON).
\<close>

record request =
  rq_method :: string
  rq_caller :: "uuid option"
  rq_body :: "CreateUserRequest option"

datatype body = ErrorBody string | CreatedBody uuid string

datatype response = Response (status: nat) (content: body)

definition isSuperAdmin :: "env \<Rightarrow> db \<Rightarrow> uuid \<Rightarrow> bool" where
  "isSuperAdmin env d userId =
     (if unavailable env RpcIsSuperAdmin then False else is_super_admin d userId)"

definition canAccessClient :: "env \<Rightarrow> db \<Rightarrow> uuid \<Rightarrow> uuid option \<Rightarrow> bool" where
  "canAccessClient env d userId clientId =
     (if \<not> truthy clientId then False
      else if unavailable env RpcCanAccessClient then False
      else can_access_client d userId clientId)"

text \<open>
  The function builds both of its clients alike: the service-role key as the API key,
  and the \<open>Authorization\<close> header of the request. The header decides whom the store
  sees, so every read and write of the function runs as the caller, under the row-level
  security policies of the migrations, with \<open>auth.uid()\<close> the caller. The policy
  functions are \<open>SECURITY DEFINER\<close> and read the tables in full.

  The policies that let a user update a row of \<open>profiles\<close>: a super admin any row, a
  user its own, a tenant admin the rows of its client. The same conditions are the
  \<open>WITH CHECK\<close> of the row as updated.
\<close>

definition profiles_update_policy :: "db \<Rightarrow> uuid \<Rightarrow> profile_row \<Rightarrow> bool" where
  "profiles_update_policy d uid row =
     (is_super_admin d uid \<or> uid = p_user_id row \<or>
      (is_tenant_admin d uid (p_client_id row) \<and>
       p_client_id row \<noteq> None \<and> p_client_id row = get_user_client_id d uid))"

text \<open>
  The update of the profile of the new user. It changes the rows of that user which
  the policies let the caller update; a row as updated must pass the policies too, the
  check on \<open>tenant_level\<close> and the foreign key on \<open>client_id\<close>. An update that
  matches no row changes nothing and is no error.
\<close>

definition profiles_update_eq_user_id ::
  "env \<Rightarrow> db \<Rightarrow> uuid \<Rightarrow> uuid \<Rightarrow> string \<Rightarrow> uuid option \<Rightarrow> string \<Rightarrow> string \<Rightarrow>
   pg_error + db" where
  "profiles_update_eq_user_id env d uid userId display_name client_id tenant_level email =
     (if unavailable env ProfilesUpdate then Inl Unavailable
      else if \<not> list_ex (\<lambda>p. p_user_id p = userId \<and> profiles_update_policy d uid p) (profiles d)
        then Inr d
      else if \<not> list_all
                 (\<lambda>p. profiles_update_policy d uid
                        (p\<lparr>p_display_name := Some display_name, p_client_id := client_id,
                           p_tenant_level := Some tenant_level, p_email := Some email\<rparr>))
                 (filter (\<lambda>p. p_user_id p = userId \<and> profiles_update_policy d uid p)
                    (profiles d))
        then Inl (RlsViolation ''profiles'')
      else if \<not> tenant_level_check (Some tenant_level)
        then Inl (CheckViolation ''profiles'' ''profiles_tenant_level_check'')
      else if \<not> references_clients d client_id
        then Inl (ForeignKeyViolation ''profiles'' ''profiles_client_id_fkey'')
      else Inr (d\<lparr>profiles :=
             map (\<lambda>p. if p_user_id p = userId \<and> profiles_update_policy d uid p
                       then p\<lparr>p_display_name := Some display_name, p_client_id := client_id,
                              p_tenant_level := Some tenant_level, p_email := Some email\<rparr>
                       else p) (profiles d)\<rparr>))"

text \<open>Every authenticated user may read the catalogue of roles.\<close>

definition roles_select_in :: "env \<Rightarrow> db \<Rightarrow> string list \<Rightarrow> pg_error + role_row list" where
  "roles_select_in env d role_names =
     (if unavailable env RolesSelect then Inl Unavailable
      else Inr (filter (\<lambda>r. r_name r \<in> set role_names) (roles d)))"

text \<open>
  An insertion into \<open>user_roles\<close> as the user \<open>uid\<close>: the one policy with a
  \<open>WITH CHECK\<close> for it admits super admins only.
\<close>

definition user_roles_insert_rls ::
  "env \<Rightarrow> db \<Rightarrow> uuid \<Rightarrow> user_role_row list \<Rightarrow> pg_error + db" where
  "user_roles_insert_rls env d uid rows =
     (if unavailable env UserRolesInsert then Inl Unavailable
      else if \<not> is_super_admin d uid then Inl (RlsViolation ''user_roles'')
      else user_roles_insert_rows d rows)"

text \<open>
  The destructuring of the payload, with its defaults:
  \<open>const { email, password, display_name, client_id, tenant_level = 'user', role_names = [] } = payload\<close>,
  and the two values the function derives with \<open>||\<close>.
\<close>

definition payload_email :: "CreateUserRequest \<Rightarrow> string" where
  "payload_email payload = (case rq_email payload of None \<Rightarrow> [] | Some e \<Rightarrow> e)"

definition payload_tenant_level :: "CreateUserRequest \<Rightarrow> string" where
  "payload_tenant_level payload =
     (case rq_tenant_level payload of None \<Rightarrow> ''user'' | Some l \<Rightarrow> l)"

definition payload_role_names :: "CreateUserRequest \<Rightarrow> string list" where
  "payload_role_names payload =
     (case rq_role_names payload of None \<Rightarrow> [] | Some ns \<Rightarrow> ns)"

definition payload_name :: "CreateUserRequest \<Rightarrow> string" where
  "payload_name payload =
     (if truthy (rq_display_name payload) then the (rq_display_name payload)
      else split_at_0 (payload_email payload))"

definition payload_password :: "env \<Rightarrow> CreateUserRequest \<Rightarrow> string" where
  "payload_password env payload =
     (if truthy (rq_password payload) then the (rq_password payload)
      else take 16 (filter (\<lambda>c. c \<noteq> CHR ''-'') (randomUUID env)) @ ''!'')"

text \<open>The last part of the function: the roles are assigned by name.\<close>

definition assign_roles_by_name ::
  "env \<Rightarrow> db \<Rightarrow> uuid \<Rightarrow> uuid \<Rightarrow> CreateUserRequest \<Rightarrow> response \<times> db" where
  "assign_roles_by_name env d2 caller newUserId payload =
     (if payload_role_names payload \<noteq> [] then
        (case roles_select_in env d2 (payload_role_names payload) of
           Inl rolesErr \<Rightarrow> (Response 400 (ErrorBody (pg_message rolesErr)), d2)
         | Inr rs \<Rightarrow>
           (let assignments = map (\<lambda>r. \<lparr>ur_user_id = newUserId, ur_role_id = r_id r\<rparr>) rs
            in if assignments \<noteq> [] then
                 (case user_roles_insert_rls env d2 caller assignments of
                    Inl assignErr \<Rightarrow> (Response 400 (ErrorBody (pg_message assignErr)), d2)
                  | Inr d3 \<Rightarrow>
                      (Response 200 (CreatedBody newUserId (payload_email payload)), d3))
               else (Response 200 (CreatedBody newUserId (payload_email payload)), d2)))
      else (Response 200 (CreatedBody newUserId (payload_email payload)), d2))"

text \<open>
  The part after the authorization: the auth user is created, its profile is
  updated, its roles are assigned. Each step that fails ends the function with status
  400; what the steps before it wrote stays.

  The payload is a JSON object of the type \<open>CreateUserRequest\<close>: a field is a value of
  its type or is absent. A body that is the JSON value \<open>null\<close>, or a \<open>null\<close> in a
  field, is no value of that type and has no counterpart here.
\<close>

definition create_user :: "env \<Rightarrow> db \<Rightarrow> uuid \<Rightarrow> CreateUserRequest \<Rightarrow> response \<times> db" where
  "create_user env d caller payload =
     (case auth_admin_createUser env d (payload_email payload) (payload_password env payload)
             (payload_name payload) (payload_tenant_level payload) of
        Inl msg \<Rightarrow>
          (Response 400 (ErrorBody (if msg \<noteq> [] then msg else ''Failed to create user'')), d)
      | Inr (newUserId, d1) \<Rightarrow>
        (case profiles_update_eq_user_id env d1 caller newUserId (payload_name payload)
                (rq_client_id payload) (payload_tenant_level payload) (payload_email payload) of
           Inl profileErr \<Rightarrow> (Response 400 (ErrorBody (pg_message profileErr)), d1)
         | Inr d2 \<Rightarrow> assign_roles_by_name env d2 caller newUserId payload))"

definition handler :: "env \<Rightarrow> db \<Rightarrow> request \<Rightarrow> response \<times> db" where
  "handler env d req =
     (if rq_method req \<noteq> ''POST'' then (Response 405 (ErrorBody ''Method not allowed''), d)
      else if \<not> (truthy (SUPABASE_URL env) \<and> truthy (SUPABASE_SERVICE_ROLE_KEY env))
        then (Response 500 (ErrorBody ''Server not configured''), d)
      else
        (case rq_body req of
           None \<Rightarrow> (Response 400 (ErrorBody ''Invalid JSON body''), d)
         | Some payload \<Rightarrow>
             if \<not> truthy (rq_email payload)
               then (Response 400 (ErrorBody ''email is required''), d)
             else
               (case rq_caller req of
                  None \<Rightarrow> (Response 401 (ErrorBody ''Unauthorized''), d)
                | Some caller \<Rightarrow>
                    if \<not> isSuperAdmin env d caller \<and>
                       \<not> canAccessClient env d caller (rq_client_id payload)
                      then (Response 403 (ErrorBody ''User not allowed''), d)
                    else create_user env d caller payload)))"

section \<open>The browser's client: row-level security\<close>

text \<open>
  The forms talk to the store as the logged-in user \<open>uid\<close>, so the policies of the
  migrations apply. An insertion is refused unless a policy's \<open>WITH CHECK\<close> holds; an
  update or a deletion silently skips the rows no policy's \<open>USING\<close> admits.
\<close>

datatype client_error =
    NotLoggedIn
  | Pg pg_error
  | FunctionsHttpError nat
  | FunctionsFetchError

definition clients_insert ::
  "env \<Rightarrow> db \<Rightarrow> uuid \<Rightarrow> string \<Rightarrow> string \<Rightarrow> string \<Rightarrow> pg_error + (client_row \<times> db)" where
  "clients_insert env d uid name email tenant_type =
     (if unavailable env ClientsInsert then Inl Unavailable
      else
        (let row = \<lparr>c_id = new_client_id env, c_name = name, c_email = email,
                     c_tenant_type = Some tenant_type, c_created_by = Some uid,
                     c_admin_user_id = None,
                     c_settings = [(''status'', ''active''),
                                   (''created_via'', ''msp_admin_panel'')]\<rparr>
         in if \<not> is_super_admin d uid then Inl (RlsViolation ''clients'')
            else if \<not> tenant_type_check (c_tenant_type row)
              then Inl (CheckViolation ''clients'' ''clients_tenant_type_check'')
            else if list_ex (\<lambda>c. c_id c = c_id row) (clients d)
              then Inl (UniqueViolation ''clients_pkey'')
            else if list_ex (\<lambda>c. c_name c = c_name row) (clients d)
              then Inl (UniqueViolation ''clients_name_key'')
            else if \<not> references_auth_users d (c_created_by row)
              then Inl (ForeignKeyViolation ''clients'' ''clients_created_by_fkey'')
            else Inr (row, d\<lparr>clients := clients d @ [row]\<rparr>)))"

text \<open>
  \<open>update({admin_user_id: v}).eq('id', tenant_id)\<close>. An undefined \<open>v\<close> is left out of
  the request and sets nothing.
\<close>

definition clients_update_eq_id ::
  "env \<Rightarrow> db \<Rightarrow> uuid \<Rightarrow> uuid \<Rightarrow> uuid option \<Rightarrow> pg_error + db" where
  "clients_update_eq_id env d uid tenant_id admin_user_id =
     (if unavailable env ClientsUpdate then Inl Unavailable
      else if \<not> is_super_admin d uid then Inr d
      else if \<not> list_ex (\<lambda>c. c_id c = tenant_id) (clients d) then Inr d
      else if \<not> references_auth_users d admin_user_id
        then Inl (ForeignKeyViolation ''clients'' ''clients_admin_user_id_fkey'')
      else Inr (d\<lparr>clients :=
             map (\<lambda>c. if c_id c = tenant_id
                       then (case admin_user_id of None \<Rightarrow> c
                             | Some a \<Rightarrow> c\<lparr>c_admin_user_id := Some a\<rparr>)
                       else c) (clients d)\<rparr>))"

definition audit_insert :: "env \<Rightarrow> db \<Rightarrow> uuid \<Rightarrow> audit_row \<Rightarrow> pg_error + db" where
  "audit_insert env d uid row =
     (if unavailable env AuditInsert then Inl Unavailable
      else if \<not> is_super_admin d uid then Inl (RlsViolation ''tenant_audit_log'')
      else if \<not> references_clients d (a_tenant_id row)
        then Inl (ForeignKeyViolation ''tenant_audit_log'' ''tenant_audit_log_tenant_id_fkey'')
      else if \<not> references_auth_users d (a_performed_by row)
        then Inl (ForeignKeyViolation ''tenant_audit_log'' ''tenant_audit_log_performed_by_fkey'')
      else Inr (d\<lparr>tenant_audit_log := tenant_audit_log d @ [row]\<rparr>))"

definition user_roles_delete_rls :: "env \<Rightarrow> db \<Rightarrow> uuid \<Rightarrow> uuid \<Rightarrow> uuid \<Rightarrow> pg_error + db" where
  "user_roles_delete_rls env d uid userId roleId =
     (if unavailable env UserRolesDelete then Inl Unavailable
      else if \<not> is_super_admin d uid then Inr d
      else Inr (d\<lparr>user_roles :=
             filter (\<lambda>ur. \<not> (ur_user_id ur = userId \<and> ur_role_id ur = roleId))
               (user_roles d)\<rparr>))"

text \<open>
  \<open>supabase.functions.invoke('create-tenant-user', {body})\<close>: the edge function runs
  as a POST of the logged-in user; any status outside 200..299 comes back as an error.
  What the function did to the store stays done either way.
\<close>

definition functions_invoke ::
  "env \<Rightarrow> db \<Rightarrow> uuid \<Rightarrow> CreateUserRequest \<Rightarrow> (client_error + body) \<times> db" where
  "functions_invoke env d uid payload =
     (if unavailable env FunctionsInvoke then (Inl FunctionsFetchError, d)
      else
        (case handler env d \<lparr>rq_method = ''POST'', rq_caller = Some uid, rq_body = Some payload\<rparr> of
           (resp, d') \<Rightarrow>
             (if 200 \<le> status resp \<and> status resp < 300 then (Inr (content resp), d')
              else (Inl (FunctionsHttpError (status resp)), d'))))"

fun user_id_of :: "body \<Rightarrow> uuid option" where
  "user_id_of (CreatedBody u e) = Some u"
| "user_id_of (ErrorBody m) = None"

section \<open>UserManagement: roles of a user\<close>

datatype toast = ToastSuccess string | ToastError string

definition message_or :: "pg_error \<Rightarrow> string \<Rightarrow> string" where
  "message_or e dflt = (if pg_message e \<noteq> [] then pg_message e else dflt)"

definition assignRole :: "env \<Rightarrow> db \<Rightarrow> uuid \<Rightarrow> uuid \<Rightarrow> uuid \<Rightarrow> toast \<times> db" where
  "assignRole env d uid userId roleId =
     (case user_roles_insert_rls env d uid [\<lparr>ur_user_id = userId, ur_role_id = roleId\<rparr>] of
        Inl error \<Rightarrow> (ToastError (message_or error ''Failed to assign role''), d)
      | Inr d' \<Rightarrow> (ToastSuccess ''Role assigned successfully'', d'))"

definition removeRole :: "env \<Rightarrow> db \<Rightarrow> uuid \<Rightarrow> uuid \<Rightarrow> uuid \<Rightarrow> toast \<times> db" where
  "removeRole env d uid userId roleId =
     (case user_roles_delete_rls env d uid userId roleId of
        Inl error \<Rightarrow> (ToastError (message_or error ''Failed to remove role''), d)
      | Inr d' \<Rightarrow> (ToastSuccess ''Role removed successfully'', d'))"

text \<open>The roles the user-creation form offers.\<close>

definition availableRoles :: "bool \<Rightarrow> role_row list \<Rightarrow> role_row list" where
  "availableRoles callerIsSuperAdmin rs =
     filter (\<lambda>role. if callerIsSuperAdmin then True
                     else r_name role \<notin> set [''Super Admin'', ''Tenant Admin'']) rs"

section \<open>TenantCreateForm\<close>

definition chars :: string where
  "chars = ''ABCDEFGHIJKLMNOPQRSTUVWXYZabcdefghijklmnopqrstuvwxyz0123456789!@#$%^&*''"

function password_loop :: "(nat \<Rightarrow> nat) \<Rightarrow> nat \<Rightarrow> string \<Rightarrow> string" where
  "password_loop rnd i password =
     (if i < 12 then password_loop rnd (i + 1) (password @ charAt chars (rnd i))
      else password)"
  by pat_completeness auto
termination
  by (relation "measure (\<lambda>(rnd, i, password). 12 - i)") auto

declare password_loop.simps [simp del]

definition generateSecurePassword :: "(nat \<Rightarrow> nat) \<Rightarrow> string" where
  "generateSecurePassword rnd = password_loop rnd 0 []"

datatype tenant_type = Regular | MspTenant

fun tenant_type_text :: "tenant_type \<Rightarrow> string" where
  "tenant_type_text Regular = ''regular''"
| "tenant_type_text MspTenant = ''msp_tenant''"

text \<open>The form's data, after the schema has accepted it.\<close>

record TenantCreateData =
  tenantName :: string
  tenantEmail :: string
  adminName :: string
  adminEmail :: string
  generatePassword :: bool
  customPassword :: "string option"
  tenantType :: tenant_type

record CreatedCredentials =
  cc_tenantId :: uuid
  cc_tenantName :: string
  cc_adminEmail :: string
  cc_adminPassword :: string
  cc_adminUserId :: "uuid option"

datatype submit_result = Created CreatedCredentials | Failed client_error

definition resolve_password :: "env \<Rightarrow> TenantCreateData \<Rightarrow> string" where
  "resolve_password env data =
     (if generatePassword data then generateSecurePassword (random_index env)
      else if truthy (customPassword data) then the (customPassword data)
      else generateSecurePassword (random_index env))"

text \<open>The body of the call of the edge function, and the entry of the audit log.\<close>

definition admin_request :: "TenantCreateData \<Rightarrow> string \<Rightarrow> client_row \<Rightarrow> CreateUserRequest" where
  "admin_request data adminPassword tenantData =
     \<lparr>rq_email = Some (adminEmail data),
      rq_password = Some adminPassword,
      rq_display_name = Some (adminName data),
      rq_client_id = Some (c_id tenantData),
      rq_tenant_level = Some ''tenant_admin'',
      rq_role_names = Some [''Tenant Admin'']\<rparr>"

definition audit_entry :: "uuid \<Rightarrow> TenantCreateData \<Rightarrow> client_row \<Rightarrow> audit_row" where
  "audit_entry uid data tenantData =
     \<lparr>a_tenant_id = Some (c_id tenantData),
      a_performed_by = Some uid,
      a_action = ''tenant_created'',
      a_details = [(''tenant_name'', tenantName data),
                   (''admin_email'', adminEmail data),
                   (''admin_name'', adminName data)]\<rparr>"

text \<open>
  Step 7 of the form awaits the insertion into the audit log and looks at nothing of
  what comes back: the store has the entry when the insertion went through, and has
  not otherwise.
\<close>

definition log_the_action :: "env \<Rightarrow> db \<Rightarrow> uuid \<Rightarrow> audit_row \<Rightarrow> db" where
  "log_the_action env d3 uid row =
     (case audit_insert env d3 uid row of Inl ignored \<Rightarrow> d3 | Inr d4 \<Rightarrow> d4)"

definition onSubmit :: "env \<Rightarrow> db \<Rightarrow> uuid option \<Rightarrow> TenantCreateData \<Rightarrow> submit_result \<times> db" where
  "onSubmit env d user data =
     (if \<not> truthy user then (Failed NotLoggedIn, d)
      else
        (case clients_insert env d (the user) (tenantName data) (tenantEmail data)
                (tenant_type_text (tenantType data)) of
           Inl tenantError \<Rightarrow> (Failed (Pg tenantError), d)
         | Inr (tenantData, d1) \<Rightarrow>
           (case functions_invoke env d1 (the user)
                    (admin_request data (resolve_password env data) tenantData) of
              (Inl fnError, d2) \<Rightarrow> (Failed fnError, d2)
            | (Inr fnResult, d2) \<Rightarrow>
              (case clients_update_eq_id env d2 (the user) (c_id tenantData)
                      (user_id_of fnResult) of
                 Inl updateError \<Rightarrow> (Failed (Pg updateError), d2)
               | Inr d3 \<Rightarrow>
                   (Created \<lparr>cc_tenantId = c_id tenantData,
                             cc_tenantName = tenantName data,
                             cc_adminEmail = adminEmail data,
                             cc_adminPassword = resolve_password env data,
                             cc_adminUserId = user_id_of fnResult\<rparr>,
                    log_the_action env d3 (the user) (audit_entry (the user) data tenantData))))))"

section \<open>A small concrete store\<close>

text \<open>
  One super admin (root), one tenant A with its tenant admin (alice), and three roles of
  the catalogue the migrations seed.
\<close>

definition db0 :: db where
  "db0 = \<lparr>clients =
           [\<lparr>c_id = ''t-a'', c_name = ''Tenant A'', c_email = ''it@a.com'',
             c_tenant_type = Some ''regular'', c_created_by = Some ''u-root'',
             c_admin_user_id = Some ''u-alice'', c_settings = []\<rparr>],
         auth_users =
           [\<lparr>au_id = ''u-root'', au_email = ''root@msp.io'', au_password = ''x'',
             au_meta_name = Some ''root'', au_meta_tenant_level = Some ''super_admin''\<rparr>,
            \<lparr>au_id = ''u-alice'', au_email = ''alice@a.com'', au_password = ''y'',
             au_meta_name = Some ''alice'', au_meta_tenant_level = Some ''tenant_admin''\<rparr>],
         profiles =
           [\<lparr>p_user_id = ''u-root'', p_display_name = Some ''root'',
             p_email = Some ''root@msp.io'', p_client_id = None,
             p_tenant_level = Some ''super_admin''\<rparr>,
            \<lparr>p_user_id = ''u-alice'', p_display_name = Some ''alice'',
             p_email = Some ''alice@a.com'', p_client_id = Some ''t-a'',
             p_tenant_level = Some ''tenant_admin''\<rparr>],
         roles =
           [\<lparr>r_id = ''r-super'', r_name = ''Super Admin''\<rparr>,
            \<lparr>r_id = ''r-tadmin'', r_name = ''Tenant Admin''\<rparr>,
            \<lparr>r_id = ''r-soc'', r_name = ''SOC Analyst''\<rparr>],
         user_roles =
           [\<lparr>ur_user_id = ''u-root'', ur_role_id = ''r-super''\<rparr>,
            \<lparr>ur_user_id = ''u-alice'', ur_role_id = ''r-tadmin''\<rparr>],
         tenant_audit_log = []\<rparr>"

definition env0 :: env where
  "env0 = \<lparr>SUPABASE_URL = Some ''https://p.supabase.co'',
          SUPABASE_SERVICE_ROLE_KEY = Some ''key'',
          unavailable = (\<lambda>s. False),
          new_client_id = ''t-b'',
          new_user_id = ''u-new'',
          randomUUID = ''3f2a9c1e-7b4d-4e8a-9c0f-5d6e7f8a9b0c'',
          random_index = (\<lambda>i. 0)\<rparr>"

definition acme_data :: TenantCreateData where
  "acme_data = \<lparr>tenantName = ''Acme Corp'', tenantEmail = ''it@acme.com'',
                adminName = ''Ann'', adminEmail = ''admin@acme.com'',
                generatePassword = True, customPassword = None,
                tenantType = Regular\<rparr>"

text \<open>The store after root has created Acme Corp in \<open>db0\<close>, under \<open>env0\<close>.\<close>

definition db1 :: db where
  "db1 = \<lparr>clients =
           [\<lparr>c_id = ''t-a'', c_name = ''Tenant A'', c_email = ''it@a.com'',
             c_tenant_type = Some ''regular'', c_created_by = Some ''u-root'',
             c_admin_user_id = Some ''u-alice'', c_settings = []\<rparr>,
            \<lparr>c_id = ''t-b'', c_name = ''Acme Corp'', c_email = ''it@acme.com'',
             c_tenant_type = Some ''regular'', c_created_by = Some ''u-root'',
             c_admin_user_id = Some ''u-new'',
             c_settings = [(''status'', ''active''), (''created_via'', ''msp_admin_panel'')]\<rparr>],
         auth_users =
           [\<lparr>au_id = ''u-root'', au_email = ''root@msp.io'', au_password = ''x'',
             au_meta_name = Some ''root'', au_meta_tenant_level = Some ''super_admin''\<rparr>,
            \<lparr>au_id = ''u-alice'', au_email = ''alice@a.com'', au_password = ''y'',
             au_meta_name = Some ''alice'', au_meta_tenant_level = Some ''tenant_admin''\<rparr>,
            \<lparr>au_id = ''u-new'', au_email = ''admin@acme.com'', au_password = ''AAAAAAAAAAAA'',
             au_meta_name = Some ''Ann'', au_meta_tenant_level = Some ''tenant_admin''\<rparr>],
         profiles =
           [\<lparr>p_user_id = ''u-root'', p_display_name = Some ''root'',
             p_email = Some ''root@msp.io'', p_client_id = None,
             p_tenant_level = Some ''super_admin''\<rparr>,
            \<lparr>p_user_id = ''u-alice'', p_display_name = Some ''alice'',
             p_email = Some ''alice@a.com'', p_client_id = Some ''t-a'',
             p_tenant_level = Some ''tenant_admin''\<rparr>,
            \<lparr>p_user_id = ''u-new'', p_display_name = Some ''Ann'',
             p_email = Some ''admin@acme.com'', p_client_id = Some ''t-b'',
             p_tenant_level = Some ''tenant_admin''\<rparr>],
         roles =
           [\<lparr>r_id = ''r-super'', r_name = ''Super Admin''\<rparr>,
            \<lparr>r_id = ''r-tadmin'', r_name = ''Tenant Admin''\<rparr>,
            \<lparr>r_id = ''r-soc'', r_name = ''SOC Analyst''\<rparr>],
         user_roles =
           [\<lparr>ur_user_id = ''u-root'', ur_role_id = ''r-super''\<rparr>,
            \<lparr>ur_user_id = ''u-alice'', ur_role_id = ''r-tadmin''\<rparr>,
            \<lparr>ur_user_id = ''u-new'', ur_role_id = ''r-tadmin''\<rparr>],
         tenant_audit_log =
           [\<lparr>a_tenant_id = Some ''t-b'', a_performed_by = Some ''u-root'',
             a_action = ''tenant_created'',
             a_details = [(''tenant_name'', ''Acme Corp''),
                          (''admin_email'', ''admin@acme.com''),
                          (''admin_name'', ''Ann'')]\<rparr>]\<rparr>"

definition acme_credentials :: CreatedCredentials where
  "acme_credentials = \<lparr>cc_tenantId = ''t-b'', cc_tenantName = ''Acme Corp'',
                       cc_adminEmail = ''admin@acme.com'',
                       cc_adminPassword = ''AAAAAAAAAAAA'',
                       cc_adminUserId = Some ''u-new''\<rparr>"

definition acme_row :: client_row where
  "acme_row = \<lparr>c_id = ''t-b'', c_name = ''Acme Corp'', c_email = ''it@acme.com'',
                c_tenant_type = Some ''regular'', c_created_by = Some ''u-root'',
                c_admin_user_id = Some ''u-new'',
                c_settings = [(''status'', ''active''), (''created_via'', ''msp_admin_panel'')]\<rparr>"

definition env_next :: env where
  "env_next = env0\<lparr>new_client_id := ''t-c'', new_user_id := ''u-next''\<rparr>"

definition unknown_role_request :: request where
  "unknown_role_request =
     \<lparr>rq_method = ''POST'', rq_caller = Some ''u-root'',
      rq_body = Some \<lparr>rq_email = Some ''bob@a.com'', rq_password = Some ''Correct-Horse-7'',
                      rq_display_name = Some ''Bob'', rq_client_id = Some ''t-a'',
                      rq_tenant_level = Some ''user'',
                      rq_role_names = Some [''No Such Role'']\<rparr>\<rparr>"

definition soc_payload :: CreateUserRequest where
  "soc_payload = \<lparr>rq_email = Some ''bob@a.com'', rq_password = Some ''Correct-Horse-7'',
                   rq_display_name = Some ''Bob'', rq_client_id = Some ''t-a'',
                   rq_tenant_level = Some ''user'',
                   rq_role_names = Some [''SOC Analyst'']\<rparr>"

definition soc_request :: request where
  "soc_request = \<lparr>rq_method = ''POST'', rq_caller = Some ''u-root'', rq_body = Some soc_payload\<rparr>"

definition retry_data :: TenantCreateData where
  "retry_data = acme_data\<lparr>tenantName := ''Acme Retry''\<rparr>"

definition retry_row :: client_row where
  "retry_row = \<lparr>c_id = ''t-c'', c_name = ''Acme Retry'', c_email = ''it@acme.com'',
                 c_tenant_type = Some ''regular'', c_created_by = Some ''u-root'',
                 c_admin_user_id = None,
                 c_settings = [(''status'', ''active''), (''created_via'', ''msp_admin_panel'')]\<rparr>"

definition retry_payload :: CreateUserRequest where
  "retry_payload = \<lparr>rq_email = Some ''admin@acme.com'', rq_password = Some ''AAAAAAAAAAAA'',
                     rq_display_name = Some ''Ann'', rq_client_id = Some ''t-b'',
                     rq_tenant_level = Some ''tenant_admin'',
                     rq_role_names = Some [''Tenant Admin'']\<rparr>"

definition retry_request :: request where
  "retry_request =
     \<lparr>rq_method = ''POST'', rq_caller = Some ''u-root'', rq_body = Some retry_payload\<rparr>"

definition custom_data :: TenantCreateData where
  "custom_data = acme_data\<lparr>generatePassword := False, customPassword := Some ''abcdefgh''\<rparr>"

definition escalation_request :: request where
  "escalation_request =
     \<lparr>rq_method = ''POST'', rq_caller = Some ''u-alice'',
      rq_body = Some \<lparr>rq_email = Some ''carol@a.com'', rq_password = Some ''Correct-Horse-7'',
                      rq_display_name = Some ''Carol'', rq_client_id = Some ''t-a'',
                      rq_tenant_level = Some ''user'',
                      rq_role_names = Some [''Tenant Admin'']\<rparr>\<rparr>"

definition env_audit_down :: env where
  "env_audit_down = env0\<lparr>unavailable := (\<lambda>s. s = AuditInsert)\<rparr>"

section \<open>Password rules\<close>

text \<open>
  The minimum policy of the specification: length at least 12, and characters of at
  least two of the classes upper case, lower case, digit, other. No function of the
  repository computes it; it is written down here to be held against what the
  generator produces and what the form lets through.
\<close>

definition is_upper :: "char \<Rightarrow> bool" where
  "is_upper c = (c \<in> set ''ABCDEFGHIJKLMNOPQRSTUVWXYZ'')"

definition is_lower :: "char \<Rightarrow> bool" where
  "is_lower c = (c \<in> set ''abcdefghijklmnopqrstuvwxyz'')"

definition is_digit :: "char \<Rightarrow> bool" where
  "is_digit c = (c \<in> set ''0123456789'')"

definition is_other :: "char \<Rightarrow> bool" where
  "is_other c = (\<not> is_upper c \<and> \<not> is_lower c \<and> \<not> is_digit c)"

definition class_count :: "string \<Rightarrow> nat" where
  "class_count pw =
     length (filter (\<lambda>cls. list_ex cls pw) [is_upper, is_lower, is_digit, is_other])"

definition spec_password_policy :: "string \<Rightarrow> bool" where
  "spec_password_policy pw = (12 \<le> length pw \<and> 2 \<le> class_count pw)"

text \<open>
  What the tenant-creation form tells the user under the field of the custom password:
  \<open>Minimum 8 characters, include numbers and symbols\<close>. The form shows the sentence
  and computes nothing from it.
\<close>

definition form_password_rule :: "string \<Rightarrow> bool" where
  "form_password_rule pw = (8 \<le> length pw \<and> list_ex is_digit pw \<and> list_ex is_other pw)"

section \<open>Invariants of the store\<close>

text \<open>
  The active-tenant invariant for one row of \<open>clients\<close>: when its \<open>admin_user_id\<close> is
  set, the user has a profile, and every profile of that user has
  \<open>tenant_level = tenant_admin\<close> and this client as its \<open>client_id\<close>.
\<close>

definition admin_profile_ok :: "db \<Rightarrow> client_row \<Rightarrow> bool" where
  "admin_profile_ok d c =
     (case c_admin_user_id c of
        None \<Rightarrow> True
      | Some a \<Rightarrow>
          filter (\<lambda>p. p_user_id p = a) (profiles d) \<noteq> [] \<and>
          list_all (\<lambda>p. p_tenant_level p = Some ''tenant_admin'' \<and>
                        p_client_id p = Some (c_id c))
            (filter (\<lambda>p. p_user_id p = a) (profiles d)))"

definition names_unique :: "db \<Rightarrow> bool" where
  "names_unique d = distinct (map c_name (clients d))"

text \<open>The stores that runs of the tenant-creation form lead to, from a store \<open>d0\<close>.\<close>

inductive provisioned :: "db \<Rightarrow> db \<Rightarrow> bool" for d0 :: db where
  start: "provisioned d0 d0"
| run: "provisioned d0 d \<Longrightarrow> onSubmit env d user data = (r, d') \<Longrightarrow> provisioned d0 d'"

text \<open>
  What a run of the form needs to go through: a logged-in super admin who is a user of
  the directory, every service answering, a configured edge function, a tenant name and
  identifiers that are new, an admin email that is new and not empty, and a catalogue
  whose Tenant Admin roles have distinct ids.
\<close>

definition provisionable :: "env \<Rightarrow> db \<Rightarrow> uuid option \<Rightarrow> TenantCreateData \<Rightarrow> bool" where
  "provisionable env d user data =
     (truthy user \<and> is_super_admin d (the user) \<and>
      references_auth_users d user \<and>
      list_all (\<lambda>s. \<not> unavailable env s)
        [ClientsInsert, FunctionsInvoke, RpcIsSuperAdmin, AuthCreateUser, ProfilesUpdate,
         RolesSelect, UserRolesInsert, ClientsUpdate] \<and>
      truthy (SUPABASE_URL env) \<and> truthy (SUPABASE_SERVICE_ROLE_KEY env) \<and>
      \<not> list_ex (\<lambda>c. c_id c = new_client_id env) (clients d) \<and>
      \<not> list_ex (\<lambda>c. c_name c = tenantName data) (clients d) \<and>
      adminEmail data \<noteq> [] \<and>
      \<not> list_ex (\<lambda>a. au_email a = adminEmail data) (auth_users d) \<and>
      \<not> list_ex (\<lambda>a. au_id a = new_user_id env) (auth_users d) \<and>
      \<not> list_ex (\<lambda>q. p_user_id q = new_user_id env) (profiles d) \<and>
      \<not> list_ex (\<lambda>ur. ur_user_id ur = new_user_id env) (user_roles d) \<and>
      distinct (map r_id (filter (\<lambda>r. r_name r = ''Tenant Admin'') (roles d))))"

section \<open>What a run leaves in the store\<close>

text \<open>
  The stores the edge function passes through when it creates a user: after the auth
  user and the trigger's profile, after the caller's update of the profile, and the
  rows of \<open>user_roles\<close> it adds last.
\<close>

definition store_created :: "env \<Rightarrow> db \<Rightarrow> CreateUserRequest \<Rightarrow> db" where
  "store_created env d p =
     d\<lparr>auth_users := auth_users d @
          [\<lparr>au_id = new_user_id env, au_email = payload_email p,
            au_password = payload_password env p,
            au_meta_name = Some (payload_name p),
            au_meta_tenant_level = Some (payload_tenant_level p)\<rparr>],
       profiles := profiles d @
          [\<lparr>p_user_id = new_user_id env, p_display_name = Some (payload_name p),
            p_email = Some (payload_email p), p_client_id = None,
            p_tenant_level = Some (payload_tenant_level p)\<rparr>]\<rparr>"

definition store_profiled :: "env \<Rightarrow> db \<Rightarrow> uuid \<Rightarrow> CreateUserRequest \<Rightarrow> db" where
  "store_profiled env d caller p =
     (store_created env d p)\<lparr>profiles :=
        map (\<lambda>q. if p_user_id q = new_user_id env \<and>
                     profiles_update_policy (store_created env d p) caller q
                  then q\<lparr>p_display_name := Some (payload_name p),
                         p_client_id := rq_client_id p,
                         p_tenant_level := Some (payload_tenant_level p),
                         p_email := Some (payload_email p)\<rparr>
                  else q) (profiles (store_created env d p))\<rparr>"

definition fresh_user :: "env \<Rightarrow> db \<Rightarrow> CreateUserRequest \<Rightarrow> bool" where
  "fresh_user env d p =
     (\<not> list_ex (\<lambda>q. p_user_id q = new_user_id env) (profiles d) \<and>
      \<not> list_ex (\<lambda>a. au_email a = payload_email p) (auth_users d) \<and>
      \<not> list_ex (\<lambda>a. au_id a = new_user_id env) (auth_users d))"

definition new_assignments :: "env \<Rightarrow> db \<Rightarrow> CreateUserRequest \<Rightarrow> user_role_row list" where
  "new_assignments env d payload =
     map (\<lambda>r. \<lparr>ur_user_id = new_user_id env, ur_role_id = r_id r\<rparr>)
       (filter (\<lambda>r. r_name r \<in> set (payload_role_names payload)) (roles d))"

section \<open>Properties\<close>

subsection \<open>The policy functions\<close>

lemma list_ex_set: "list_ex P xs \<longleftrightarrow> (\<exists>x. x \<in> set xs \<and> P x)"
  by (auto simp: list_ex_iff)

lemma is_super_admin_iff:
  "is_super_admin d u \<longleftrightarrow>
     (\<exists>ur r. ur \<in> set (user_roles d) \<and> r \<in> set (roles d) \<and>
        ur_user_id ur = u \<and> ur_role_id ur = r_id r \<and> r_name r = ''Super Admin'')"
  unfolding is_super_admin_def list_ex_set by blast

text \<open>
  C7: for every principal \<open>P\<close> and tenant id \<open>T\<close>, \<open>can_access_client\<close> is true if and
  only if \<open>P\<close> holds a role assignment to the role named Super Admin, or a profile of
  \<open>P\<close> has \<open>client_id\<close> equal to \<open>T\<close>.
\<close>

theorem can_access_client_iff:
  "can_access_client d P (Some T) \<longleftrightarrow>
     (\<exists>ur r. ur \<in> set (user_roles d) \<and> r \<in> set (roles d) \<and>
        ur_user_id ur = P \<and> ur_role_id ur = r_id r \<and> r_name r = ''Super Admin'') \<or>
     (\<exists>p. p \<in> set (profiles d) \<and> p_user_id p = P \<and> p_client_id p = Some T)"
  unfolding can_access_client_def is_super_admin_iff list_ex_set by auto

text \<open>The function's own \<open>canAccessClient\<close> asks the store, unless the client id is falsy.\<close>

lemma canAccessClient_rpc:
  "canAccessClient env d u c =
     (truthy c \<and> \<not> unavailable env RpcCanAccessClient \<and> can_access_client d u c)"
  by (simp add: canAccessClient_def)

subsection \<open>What each step writes\<close>

lemma user_roles_insert_rows_frame:
  "user_roles_insert_rows d rows = Inr d' \<Longrightarrow> d' = d\<lparr>user_roles := user_roles d @ rows\<rparr>"
proof (induction rows arbitrary: d)
  case Nil
  then show ?case by simp
next
  case (Cons x xs)
  from Cons.prems
  have "user_roles_insert_rows (d\<lparr>user_roles := user_roles d @ [x]\<rparr>) xs = Inr d'"
    by (simp split: if_splits)
  from Cons.IH [OF this] show ?case by simp
qed

lemma createUser_frame:
  assumes "auth_admin_createUser env d e pw n lv = Inr (u, d1)"
  shows "u = new_user_id env"
    and "d1 = d\<lparr>auth_users := auth_users d @
                   [\<lparr>au_id = new_user_id env, au_email = e, au_password = pw,
                     au_meta_name = Some n, au_meta_tenant_level = Some lv\<rparr>],
                profiles := profiles d @
                   [\<lparr>p_user_id = new_user_id env, p_display_name = Some n,
                     p_email = Some e, p_client_id = None, p_tenant_level = Some lv\<rparr>]\<rparr>"
    and "\<not> list_ex (\<lambda>p. p_user_id p = new_user_id env) (profiles d)"
    and "\<not> list_ex (\<lambda>a. au_email a = e) (auth_users d)"
    and "\<not> list_ex (\<lambda>a. au_id a = new_user_id env) (auth_users d)"
  using assms
  by (auto simp: auth_admin_createUser_def handle_new_user_def Let_def
           split: if_splits sum.splits)

lemma profiles_update_frame:
  assumes "profiles_update_eq_user_id env d uid u n c lv e = Inr d2"
  shows "d2 = d\<lparr>profiles :=
             map (\<lambda>p. if p_user_id p = u \<and> profiles_update_policy d uid p
                       then p\<lparr>p_display_name := Some n, p_client_id := c,
                              p_tenant_level := Some lv, p_email := Some e\<rparr>
                       else p) (profiles d)\<rparr>"
proof (cases "list_ex (\<lambda>p. p_user_id p = u \<and> profiles_update_policy d uid p) (profiles d)")
  case True
  with assms show ?thesis
    by (simp add: profiles_update_eq_user_id_def split: if_splits)
next
  case False
  then have same: "map (\<lambda>p. if p_user_id p = u \<and> profiles_update_policy d uid p
                       then p\<lparr>p_display_name := Some n, p_client_id := c,
                              p_tenant_level := Some lv, p_email := Some e\<rparr>
                       else p) (profiles d) = profiles d"
    by (intro map_idI) (auto simp: list_ex_iff)
  from assms False have "d2 = d"
    by (simp add: profiles_update_eq_user_id_def split: if_splits)
  then show ?thesis unfolding same by simp
qed

lemma user_roles_insert_rls_frame:
  assumes "user_roles_insert_rls env d uid rows = Inr d'"
  shows "d' = d\<lparr>user_roles := user_roles d @ rows\<rparr>" and "is_super_admin d uid"
  using assms
  by (auto simp: user_roles_insert_rls_def split: if_splits dest: user_roles_insert_rows_frame)

lemma assign_roles_by_name_store:
  assumes "assign_roles_by_name env d2 c (new_user_id env) p = (r, d')"
  shows "(d' = d2 \<and> status r = 400) \<or>
         (r = Response 200 (CreatedBody (new_user_id env) (payload_email p)) \<and>
          (new_assignments env d2 p = [] \<or> is_super_admin d2 c) \<and>
          d' = d2\<lparr>user_roles := user_roles d2 @ new_assignments env d2 p\<rparr>)"
proof (cases "payload_role_names p = []")
  case True
  with assms show ?thesis
    by (auto simp: assign_roles_by_name_def new_assignments_def)
next
  case False
  show ?thesis
  proof (cases "roles_select_in env d2 (payload_role_names p)")
    case (Inl e)
    with assms False show ?thesis by (auto simp: assign_roles_by_name_def)
  next
    case (Inr rs)
    then have rs: "rs = filter (\<lambda>r. r_name r \<in> set (payload_role_names p)) (roles d2)"
      by (auto simp: roles_select_in_def split: if_splits)
    show ?thesis
    proof (cases "rs = []")
      case True
      with assms False Inr rs show ?thesis
        by (auto simp: assign_roles_by_name_def new_assignments_def)
    next
      case nonempty: False
      show ?thesis
      proof (cases "user_roles_insert_rls env d2 c (new_assignments env d2 p)")
        case (Inl e)
        with assms False Inr rs nonempty show ?thesis
          by (auto simp: assign_roles_by_name_def new_assignments_def Let_def)
      next
        case ins: (Inr d3)
        from user_roles_insert_rls_frame [OF this]
        have "d3 = d2\<lparr>user_roles := user_roles d2 @ new_assignments env d2 p\<rparr>"
          and "is_super_admin d2 c" .
        with assms False Inr rs nonempty ins show ?thesis
          by (auto simp: assign_roles_by_name_def new_assignments_def Let_def)
      qed
    qed
  qed
qed

lemma create_user_store:
  assumes "create_user env d c p = (r, d')"
  shows "(d' = d \<and> status r = 400) \<or>
         (fresh_user env d p \<and>
          ((d' = store_created env d p \<and> status r = 400) \<or>
           (d' = store_profiled env d c p \<and> status r = 400) \<or>
           (r = Response 200 (CreatedBody (new_user_id env) (payload_email p)) \<and>
            (new_assignments env d p = [] \<or> is_super_admin d c) \<and>
            d' = (store_profiled env d c p)\<lparr>user_roles :=
                    user_roles d @ new_assignments env d p\<rparr>)))"
proof (cases "auth_admin_createUser env d (payload_email p) (payload_password env p)
                (payload_name p) (payload_tenant_level p)")
  case (Inl msg)
  with assms show ?thesis by (auto simp: create_user_def)
next
  case (Inr ud)
  obtain u d1 where ud: "ud = (u, d1)" by (cases ud)
  note cu = Inr [unfolded ud]
  have u: "u = new_user_id env" by (rule createUser_frame(1) [OF cu])
  have d1: "d1 = store_created env d p"
    unfolding store_created_def by (rule createUser_frame(2) [OF cu])
  have fresh: "fresh_user env d p"
    unfolding fresh_user_def using createUser_frame(3,4,5) [OF cu] by simp
  show ?thesis
  proof (cases "profiles_update_eq_user_id env d1 c u (payload_name p) (rq_client_id p)
                  (payload_tenant_level p) (payload_email p)")
    case (Inl e)
    with assms cu d1 fresh show ?thesis by (auto simp: create_user_def)
  next
    case pu: (Inr d2)
    have d2: "d2 = store_profiled env d c p"
      unfolding store_profiled_def using profiles_update_frame [OF pu] by (simp add: d1 u)
    have same: "user_roles d2 = user_roles d" "roles d2 = roles d"
      by (simp_all add: d2 store_profiled_def store_created_def)
    have na: "new_assignments env d2 p = new_assignments env d p"
      by (simp add: new_assignments_def same)
    have sa: "is_super_admin d2 c = is_super_admin d c"
      by (simp add: is_super_admin_def same)
    from assms cu pu have "assign_roles_by_name env d2 c (new_user_id env) p = (r, d')"
      by (simp add: create_user_def u)
    from assign_roles_by_name_store [OF this] fresh show ?thesis
      by (auto simp: na sa same d2 [symmetric])
  qed
qed

lemma handler_store:
  assumes "handler env d req = (r, d')"
  shows "(d' = d \<and> 400 \<le> status r) \<or>
         (\<exists>p c. rq_body req = Some p \<and> rq_caller req = Some c \<and> fresh_user env d p \<and>
          ((d' = store_created env d p \<and> status r = 400) \<or>
           (d' = store_profiled env d c p \<and> status r = 400) \<or>
           (r = Response 200 (CreatedBody (new_user_id env) (payload_email p)) \<and>
            (new_assignments env d p = [] \<or> is_super_admin d c) \<and>
            d' = (store_profiled env d c p)\<lparr>user_roles :=
                    user_roles d @ new_assignments env d p\<rparr>)))"
proof (cases "\<exists>p c. rq_body req = Some p \<and> rq_caller req = Some c \<and>
                handler env d req = create_user env d c p")
  case True
  then obtain p c where p: "rq_body req = Some p" "rq_caller req = Some c"
      "create_user env d c p = (r, d')"
    using assms by auto
  from create_user_store [OF p(3)] p(1,2) show ?thesis by auto
next
  case False
  with assms show ?thesis
    by (auto simp: handler_def split: if_splits option.splits)
qed

lemma clients_insert_frame:
  assumes "clients_insert env d uid n e t = Inr (row, d1)"
  shows "row = \<lparr>c_id = new_client_id env, c_name = n, c_email = e,
                 c_tenant_type = Some t, c_created_by = Some uid,
                 c_admin_user_id = None,
                 c_settings = [(''status'', ''active''), (''created_via'', ''msp_admin_panel'')]\<rparr>"
    and "d1 = d\<lparr>clients := clients d @ [row]\<rparr>"
    and "is_super_admin d uid"
    and "\<not> list_ex (\<lambda>c. c_id c = new_client_id env) (clients d)"
    and "\<not> list_ex (\<lambda>c. c_name c = n) (clients d)"
  using assms
  by (auto simp: clients_insert_def Let_def split: if_splits)

lemma clients_update_eq_id_frame:
  assumes "clients_update_eq_id env d uid tid adm = Inr d3"
  shows "d3 = d \<or>
         d3 = d\<lparr>clients :=
                map (\<lambda>c. if c_id c = tid
                          then (case adm of None \<Rightarrow> c | Some a \<Rightarrow> c\<lparr>c_admin_user_id := Some a\<rparr>)
                          else c) (clients d)\<rparr>"
  using assms
  by (auto simp: clients_update_eq_id_def split: if_splits)

lemma log_the_action_frame:
  "\<exists>al. log_the_action env d uid row = d\<lparr>tenant_audit_log := al\<rparr>"
proof (cases "audit_insert env d uid row")
  case (Inl e)
  then have "log_the_action env d uid row = d\<lparr>tenant_audit_log := tenant_audit_log d\<rparr>"
    by (simp add: log_the_action_def)
  then show ?thesis by blast
next
  case (Inr d4)
  then have "log_the_action env d uid row = d\<lparr>tenant_audit_log := tenant_audit_log d @ [row]\<rparr>"
    by (auto simp: log_the_action_def audit_insert_def split: if_splits)
  then show ?thesis by blast
qed

lemma onSubmit_cases:
  assumes "onSubmit env d user data = (r, d')"
  obtains
    (early) e where "d' = d" and "r = Failed e"
  | (fetch) uid row where "user = Some uid" and
      "clients_insert env d uid (tenantName data) (tenantEmail data)
         (tenant_type_text (tenantType data)) = Inr (row, d\<lparr>clients := clients d @ [row]\<rparr>)" and
      "d' = d\<lparr>clients := clients d @ [row]\<rparr>" and "r = Failed FunctionsFetchError"
  | (failed) uid row rh d2 e where "user = Some uid" and
      "clients_insert env d uid (tenantName data) (tenantEmail data)
         (tenant_type_text (tenantType data)) = Inr (row, d\<lparr>clients := clients d @ [row]\<rparr>)" and
      "handler env (d\<lparr>clients := clients d @ [row]\<rparr>)
         \<lparr>rq_method = ''POST'', rq_caller = Some uid,
          rq_body = Some (admin_request data (resolve_password env data) row)\<rparr> = (rh, d2)" and
      "d' = d2" and "r = Failed e"
  | (completed) uid row rh d2 cr al where "user = Some uid" and
      "clients_insert env d uid (tenantName data) (tenantEmail data)
         (tenant_type_text (tenantType data)) = Inr (row, d\<lparr>clients := clients d @ [row]\<rparr>)" and
      "handler env (d\<lparr>clients := clients d @ [row]\<rparr>)
         \<lparr>rq_method = ''POST'', rq_caller = Some uid,
          rq_body = Some (admin_request data (resolve_password env data) row)\<rparr> = (rh, d2)" and
      "200 \<le> status rh" and "status rh < 300" and
      "r = Created cr" and "cc_adminUserId cr = user_id_of (content rh)" and
      "cc_adminPassword cr = resolve_password env data" and
      "d' = d2\<lparr>tenant_audit_log := al\<rparr> \<or>
       d' = d2\<lparr>clients :=
              map (\<lambda>c. if c_id c = c_id row
                        then (case user_id_of (content rh) of None \<Rightarrow> c
                              | Some a \<Rightarrow> c\<lparr>c_admin_user_id := Some a\<rparr>)
                        else c) (clients d2),
            tenant_audit_log := al\<rparr>"
proof (cases "truthy user")
  case False
  with assms have "d' = d" "r = Failed NotLoggedIn" by (auto simp: onSubmit_def)
  then show thesis by (rule early)
next
  case True
  then obtain uid where uid: "user = Some uid" by (cases user) (auto simp: truthy_def)
  show thesis
  proof (cases "clients_insert env d uid (tenantName data) (tenantEmail data)
                  (tenant_type_text (tenantType data))")
    case (Inl e)
    with assms True uid have "d' = d" "r = Failed (Pg e)" by (auto simp: onSubmit_def)
    then show thesis by (rule early)
  next
    case (Inr rd)
    obtain row d1 where rd: "rd = (row, d1)" by (cases rd)
    note ins0 = Inr [unfolded rd]
    have d1: "d1 = d\<lparr>clients := clients d @ [row]\<rparr>"
      by (rule clients_insert_frame(2) [OF ins0])
    note ins = ins0 [unfolded d1]
    define req where "req = \<lparr>rq_method = ''POST'', rq_caller = Some uid,
            rq_body = Some (admin_request data (resolve_password env data) row)\<rparr>"
    show thesis
    proof (cases "unavailable env FunctionsInvoke")
      case down: True
      with assms True uid ins0 have "d' = d1" "r = Failed FunctionsFetchError"
        by (auto simp: onSubmit_def functions_invoke_def)
      with uid ins show thesis unfolding d1 by (intro fetch)
    next
      case ran: False
      obtain rh d2 where h0: "handler env d1 req = (rh, d2)" by (cases "handler env d1 req")
      note h = h0 [unfolded d1 req_def]
      show thesis
      proof (cases "200 \<le> status rh \<and> status rh < 300")
        case False
        with assms True uid ins0 ran h0
        have "d' = d2" "r = Failed (FunctionsHttpError (status rh))"
          by (auto simp: onSubmit_def functions_invoke_def req_def)
        with uid ins h show thesis by (intro failed)
      next
        case ok: True
        then have inv: "functions_invoke env d1 uid
                 (admin_request data (resolve_password env data) row) = (Inr (content rh), d2)"
          using ran h0 by (simp add: functions_invoke_def req_def)
        show thesis
        proof (cases "clients_update_eq_id env d2 uid (c_id row) (user_id_of (content rh))")
          case (Inl e)
          with assms True uid ins0 inv have "d' = d2" "r = Failed (Pg e)"
            by (auto simp: onSubmit_def)
          with uid ins h show thesis by (intro failed)
        next
          case upd: (Inr d3)
          from assms True uid ins0 inv upd
          have r: "r = Created \<lparr>cc_tenantId = c_id row, cc_tenantName = tenantName data,
                             cc_adminEmail = adminEmail data,
                             cc_adminPassword = resolve_password env data,
                             cc_adminUserId = user_id_of (content rh)\<rparr>"
            and d': "d' = log_the_action env d3 uid (audit_entry uid data row)"
            by (simp_all add: onSubmit_def)
          from log_the_action_frame [of env d3 uid "audit_entry uid data row"] d'
          obtain al where al: "d' = d3\<lparr>tenant_audit_log := al\<rparr>" by auto
          from clients_update_eq_id_frame [OF upd] al
          have "d' = d2\<lparr>tenant_audit_log := al\<rparr> \<or>
               d' = d2\<lparr>clients :=
                      map (\<lambda>c. if c_id c = c_id row
                                then (case user_id_of (content rh) of None \<Rightarrow> c
                                      | Some a \<Rightarrow> c\<lparr>c_admin_user_id := Some a\<rparr>)
                                else c) (clients d2),
                    tenant_audit_log := al\<rparr>"
            by auto
          with uid ins h ok r show thesis by (intro completed [where cr = "\<lparr>cc_tenantId = c_id row, cc_tenantName = tenantName data,
                             cc_adminEmail = adminEmail data,
                             cc_adminPassword = resolve_password env data,
                             cc_adminUserId = user_id_of (content rh)\<rparr>"]) simp_all
        qed
      qed
    qed
  qed
qed

lemma filter_user_map_other:
  assumes "a \<noteq> n" and "\<And>q. p_user_id (f q) = p_user_id q"
  shows "filter (\<lambda>q. p_user_id q = a)
           (map (\<lambda>q. if p_user_id q = n \<and> P q then f q else q) ps) =
         filter (\<lambda>q. p_user_id q = a) ps"
  using assms by (induction ps) auto

lemma profiles_store_created:
  "profiles (store_created env d p) = profiles d @
     [\<lparr>p_user_id = new_user_id env, p_display_name = Some (payload_name p),
       p_email = Some (payload_email p), p_client_id = None,
       p_tenant_level = Some (payload_tenant_level p)\<rparr>]"
  by (simp add: store_created_def)

lemma profiles_store_profiled:
  "profiles (store_profiled env d c p) =
     map (\<lambda>q. if p_user_id q = new_user_id env \<and>
                  profiles_update_policy (store_created env d p) c q
               then q\<lparr>p_display_name := Some (payload_name p),
                      p_client_id := rq_client_id p,
                      p_tenant_level := Some (payload_tenant_level p),
                      p_email := Some (payload_email p)\<rparr>
               else q) (profiles (store_created env d p))"
  by (simp add: store_profiled_def)

lemma clients_store [simp]:
  "clients (store_created env d p) = clients d"
  "clients (store_profiled env d c p) = clients d"
  by (simp_all add: store_profiled_def store_created_def)

lemma user_roles_store [simp]:
  "user_roles (store_created env d p) = user_roles d"
  "user_roles (store_profiled env d c p) = user_roles d"
  by (simp_all add: store_profiled_def store_created_def)

lemma is_super_admin_store_created [simp]:
  "is_super_admin (store_created env d p) c = is_super_admin d c"
  by (simp add: is_super_admin_def store_created_def)

lemma super_admin_may_update:
  "is_super_admin d c \<Longrightarrow> profiles_update_policy d c q"
  by (simp add: profiles_update_policy_def)

lemma handler_clients:
  assumes "handler env d req = (r, d')"
  shows "clients d' = clients d"
  using handler_store [OF assms] by auto

lemma handler_keeps_profiles:
  assumes run: "handler env d req = (r, d')"
    and has: "filter (\<lambda>q. p_user_id q = a) (profiles d) \<noteq> []"
  shows "filter (\<lambda>q. p_user_id q = a) (profiles d') = filter (\<lambda>q. p_user_id q = a) (profiles d)"
proof (cases "d' = d")
  case True
  then show ?thesis by simp
next
  case False
  with handler_store [OF run] obtain p c where fresh: "fresh_user env d p"
    and reached: "d' = store_created env d p \<or> d' = store_profiled env d c p \<or>
       d' = (store_profiled env d c p)\<lparr>user_roles :=
               user_roles d @ new_assignments env d p\<rparr>"
    by blast
  from reached have d': "profiles d' = profiles (store_created env d p) \<or>
             profiles d' = profiles (store_profiled env d c p)"
    by auto
  from fresh have none: "filter (\<lambda>q. p_user_id q = new_user_id env) (profiles d) = []"
    by (simp add: fresh_user_def list_ex_iff filter_empty_conv)
  with has have ne: "a \<noteq> new_user_id env" by auto
  have c: "filter (\<lambda>q. p_user_id q = a) (profiles (store_created env d p)) =
           filter (\<lambda>q. p_user_id q = a) (profiles d)"
    using ne by (simp add: profiles_store_created)
  have "filter (\<lambda>q. p_user_id q = a) (profiles (store_profiled env d c p)) =
        filter (\<lambda>q. p_user_id q = a) (profiles (store_created env d p))"
    unfolding profiles_store_profiled by (rule filter_user_map_other [OF ne]) simp
  with c d' show ?thesis by auto
qed

text \<open>
  When the function has answered a super admin with the new user, the profile of that
  user carries the tenant level and the client of the request.
\<close>

lemma handler_created_profile:
  assumes run: "handler env d req = (Response st (CreatedBody u e), d')"
    and ok: "st < 300" and body: "rq_body req = Some p"
    and caller: "rq_caller req = Some c" and super: "is_super_admin d c"
  shows "u = new_user_id env"
    and "filter (\<lambda>q. p_user_id q = u) (profiles d') \<noteq> []"
    and "list_all (\<lambda>q. p_tenant_level q = Some (payload_tenant_level p) \<and>
                       p_client_id q = rq_client_id p)
           (filter (\<lambda>q. p_user_id q = u) (profiles d'))"
proof -
  from handler_store [OF run] ok body caller
  have fresh: "fresh_user env d p" and u: "u = new_user_id env"
    and d': "profiles d' = profiles (store_profiled env d c p)"
    by auto
  from fresh have none: "filter (\<lambda>q. p_user_id q = new_user_id env) (profiles d) = []"
    by (simp add: fresh_user_def list_ex_iff filter_empty_conv)
  have may: "profiles_update_policy (store_created env d p) c q" for q
    using super by (simp add: super_admin_may_update)
  have "filter (\<lambda>q. p_user_id q = new_user_id env) (profiles d') =
        [\<lparr>p_user_id = new_user_id env, p_display_name = Some (payload_name p),
          p_email = Some (payload_email p), p_client_id = rq_client_id p,
          p_tenant_level = Some (payload_tenant_level p)\<rparr>]"
    using none
    by (simp add: d' profiles_store_profiled profiles_store_created filter_map o_def
                  filter_empty_conv may)
  then show "u = new_user_id env"
    and "filter (\<lambda>q. p_user_id q = u) (profiles d') \<noteq> []"
    and "list_all (\<lambda>q. p_tenant_level q = Some (payload_tenant_level p) \<and>
                       p_client_id q = rq_client_id p)
           (filter (\<lambda>q. p_user_id q = u) (profiles d'))"
    by (simp_all add: u)
qed

lemma onSubmit_keeps_profiles:
  assumes run: "onSubmit env d user data = (r, d')"
    and has: "filter (\<lambda>q. p_user_id q = a) (profiles d) \<noteq> []"
  shows "filter (\<lambda>q. p_user_id q = a) (profiles d') = filter (\<lambda>q. p_user_id q = a) (profiles d)"
  using run
proof (cases rule: onSubmit_cases)
  case (early e)
  then show ?thesis by simp
next
  case (fetch uid row)
  then show ?thesis by simp
next
  case (failed uid row rh d2 e)
  from handler_keeps_profiles [OF failed(3), of a] has failed(4) show ?thesis by simp
next
  case (completed uid row rh d2 cr al)
  then have "profiles d' = profiles d2" by auto
  with handler_keeps_profiles [OF completed(3), of a] has show ?thesis by simp
qed

lemma admin_profile_ok_preserved:
  assumes run: "onSubmit env d user data = (r, d')" and ok: "admin_profile_ok d T"
  shows "admin_profile_ok d' T"
proof (cases "c_admin_user_id T")
  case None
  then show ?thesis by (simp add: admin_profile_ok_def)
next
  case (Some a)
  with ok have has: "filter (\<lambda>q. p_user_id q = a) (profiles d) \<noteq> []"
    by (simp add: admin_profile_ok_def)
  from onSubmit_keeps_profiles [OF run has] ok Some show ?thesis
    by (simp add: admin_profile_ok_def)
qed

lemma map_update_new_row:
  assumes "\<not> list_ex (\<lambda>c. c_id c = c_id row) cs"
  shows "map (\<lambda>c. if c_id c = c_id row then f c else c) (cs @ [row]) = cs @ [f row]"
proof -
  from assms have "map (\<lambda>c. if c_id c = c_id row then f c else c) cs = cs"
    by (simp add: list_ex_iff map_idI)
  then show ?thesis by simp
qed

text \<open>
  The rows of \<open>clients\<close> after a run: the rows before it, and at most one new row, whose
  id and name were not in the table and whose admin, if set, has the profile of a
  tenant admin of that client.
\<close>

lemma onSubmit_clients:
  assumes run: "onSubmit env d user data = (r, d')"
  shows "clients d' = clients d \<or>
    (\<exists>row. \<not> list_ex (\<lambda>c. c_id c = c_id row) (clients d) \<and>
           \<not> list_ex (\<lambda>c. c_name c = tenantName data) (clients d) \<and>
           c_name row = tenantName data \<and>
           admin_profile_ok d' row \<and> clients d' = clients d @ [row])"
proof -
  have inserted: "\<not> list_ex (\<lambda>c. c_id c = c_id row) (clients d) \<and>
           \<not> list_ex (\<lambda>c. c_name c = tenantName data) (clients d) \<and>
           c_name row = tenantName data \<and> c_admin_user_id row = None"
    if "clients_insert env d uid (tenantName data) (tenantEmail data)
         (tenant_type_text (tenantType data)) = Inr (row, d1)" for uid row d1
    using clients_insert_frame [OF that] by simp
  have plain: "admin_profile_ok d' row" if "c_admin_user_id row = None" for row
    using that by (simp add: admin_profile_ok_def)
  from run show ?thesis
  proof (cases rule: onSubmit_cases)
    case (early e)
    then show ?thesis by simp
  next
    case (fetch uid row)
    with inserted [OF fetch(2)] plain [of row] show ?thesis by auto
  next
    case (failed uid row rh d2 e)
    from handler_clients [OF failed(3)] failed(4)
    have "clients d' = clients d @ [row]" by simp
    with inserted [OF failed(2)] plain [of row] show ?thesis by auto
  next
    case (completed uid row rh d2 cr al)
    note ins = inserted [OF completed(2)]
    have c2: "clients d2 = clients d @ [row]"
      using handler_clients [OF completed(3)] by simp
    have pd': "profiles d' = profiles d2" using completed(9) by auto
    show ?thesis
    proof (cases "clients d' = clients d @ [row]")
      case True
      with ins plain [of row] show ?thesis by auto
    next
      case changed: False
      with completed(9) c2
      have "clients d' = map (\<lambda>c. if c_id c = c_id row
                        then (case user_id_of (content rh) of None \<Rightarrow> c
                              | Some a \<Rightarrow> c\<lparr>c_admin_user_id := Some a\<rparr>)
                        else c) (clients d @ [row])"
        by auto
      also have "\<dots> = clients d @
                 [case user_id_of (content rh) of None \<Rightarrow> row
                  | Some a \<Rightarrow> row\<lparr>c_admin_user_id := Some a\<rparr>]"
        using ins by (intro map_update_new_row) simp
      finally have cd': "clients d' = clients d @
                 [case user_id_of (content rh) of None \<Rightarrow> row
                  | Some a \<Rightarrow> row\<lparr>c_admin_user_id := Some a\<rparr>]" .
      show ?thesis
      proof (cases "user_id_of (content rh)")
        case None
        with cd' changed show ?thesis by simp
      next
        case (Some u)
        then obtain st e where rh: "rh = Response st (CreatedBody u e)"
          by (cases rh; cases "content rh") auto
        from completed(5) rh have st: "st < 300" by simp
        have super1: "is_super_admin (d\<lparr>clients := clients d @ [row]\<rparr>) uid"
          using clients_insert_frame(3) [OF completed(2)] by (simp add: is_super_admin_def)
        note created = handler_created_profile [OF completed(3) [unfolded rh] st _ _ super1]
        have okrow: "admin_profile_ok d' (row\<lparr>c_admin_user_id := Some u\<rparr>)"
          using created(2,3) [of "admin_request data (resolve_password env data) row"]
          by (simp add: admin_profile_ok_def pd' admin_request_def payload_tenant_level_def)
        have "\<not> list_ex (\<lambda>c. c_id c = c_id (row\<lparr>c_admin_user_id := Some u\<rparr>)) (clients d)"
          "c_name (row\<lparr>c_admin_user_id := Some u\<rparr>) = tenantName data"
          using ins by simp_all
        with okrow cd' Some ins show ?thesis by auto
      qed
    qed
  qed
qed

subsection \<open>The edge function: a request without a target client\<close>

text \<open>
  C10: when \<open>client_id\<close> is absent or null (or the empty string, which is as falsy), a
  caller who is not a super admin changes nothing in the store, whatever else the
  request holds; and a request that gets as far as the authorization (a POST with an
  email, on a configured server) is answered 403, User not allowed.
\<close>

theorem null_client_forbidden:
  assumes "rq_caller req = Some c" and "\<not> is_super_admin d c"
    and "rq_body req = Some p" and "\<not> truthy (rq_client_id p)"
  shows "snd (handler env d req) = d \<and>
         (rq_method req = ''POST'' \<and> truthy (SUPABASE_URL env) \<and>
          truthy (SUPABASE_SERVICE_ROLE_KEY env) \<and> truthy (rq_email p) \<longrightarrow>
          fst (handler env d req) = Response 403 (ErrorBody ''User not allowed''))"
  using assms
  by (simp add: handler_def isSuperAdmin_def canAccessClient_def Let_def)

theorem null_client_forbidden_witness:
  "snd (handler env0 db0 \<lparr>rq_method = ''POST'', rq_caller = Some ''u-alice'',
          rq_body = Some \<lparr>rq_email = Some ''bob@a.com'', rq_password = None,
            rq_display_name = None, rq_client_id = None, rq_tenant_level = None,
            rq_role_names = None\<rparr>\<rparr>) = db0 \<and>
   fst (handler env0 db0 \<lparr>rq_method = ''POST'', rq_caller = Some ''u-alice'',
          rq_body = Some \<lparr>rq_email = Some ''bob@a.com'', rq_password = None,
            rq_display_name = None, rq_client_id = None, rq_tenant_level = None,
            rq_role_names = None\<rparr>\<rparr>) = Response 403 (ErrorBody ''User not allowed'')"
proof -
  have ns: "\<not> is_super_admin db0 ''u-alice''"
    by (simp add: is_super_admin_def db0_def)
  show ?thesis
    using null_client_forbidden [of "\<lparr>rq_method = ''POST'', rq_caller = Some ''u-alice'',
          rq_body = Some \<lparr>rq_email = Some ''bob@a.com'', rq_password = None,
            rq_display_name = None, rq_client_id = None, rq_tenant_level = None,
            rq_role_names = None\<rparr>\<rparr>" "''u-alice''" db0 _ env0, OF _ ns]
    by (simp add: truthy_def env0_def)
qed

lemmas run_defs = onSubmit_def clients_insert_def functions_invoke_def handler_def create_user_def
  assign_roles_by_name_def auth_admin_createUser_def handle_new_user_def
  profiles_update_eq_user_id_def profiles_update_policy_def roles_select_in_def
  clients_update_eq_id_def log_the_action_def audit_insert_def admin_request_def
  audit_entry_def resolve_password_def generateSecurePassword_def payload_email_def
  payload_name_def payload_password_def payload_tenant_level_def payload_role_names_def
  isSuperAdmin_def canAccessClient_def is_super_admin_def can_access_client_def
  is_tenant_admin_def get_user_client_id_def truthy_def
  tenant_level_check_def tenant_type_check_def references_auth_users_def
  references_clients_def references_roles_def same_pair_def charAt_def chars_def
  split_at_0_def user_roles_insert_rls_def user_roles_delete_rls_def assignRole_def
  removeRole_def message_or_def quoted_def Let_def

lemma acme_run: "onSubmit env0 db0 (Some ''u-root'') acme_data = (Created acme_credentials, db1)"
  by (simp add: run_defs db0_def env0_def acme_data_def db1_def acme_credentials_def
                password_loop.simps)

subsection \<open>The active-tenant invariant\<close>

lemma provisioned_keeps_ok:
  "provisioned d0 d \<Longrightarrow> admin_profile_ok d0 T \<Longrightarrow> admin_profile_ok d T"
  by (induction rule: provisioned.induct) (auto intro: admin_profile_ok_preserved)

lemma provisioned_rows:
  "provisioned d0 d \<Longrightarrow> T \<in> set (clients d) \<Longrightarrow>
     T \<in> set (clients d0) \<or> admin_profile_ok d T"
proof (induction arbitrary: T rule: provisioned.induct)
  case start
  then show ?case by simp
next
  case (run d env user data r d')
  from onSubmit_clients [OF run.hyps(2)] run.prems
  consider "T \<in> set (clients d)" | "admin_profile_ok d' T" by auto
  then show ?case
  proof cases
    case 1
    with run.IH [of T] admin_profile_ok_preserved [OF run.hyps(2), of T] show ?thesis by auto
  next
    case 2
    then show ?thesis by simp
  qed
qed

text \<open>
  C8: in every store that runs of the tenant-creation form lead to, a tenant \<open>T\<close> whose
  \<open>admin_user_id\<close> is set refers to a principal that has a profile, with
  \<open>tenant_level = tenant_admin\<close> and \<open>client_id = T.id\<close>. Tenants that were in the
  store before the first run are covered when they satisfied this to begin with.
\<close>

theorem active_tenant_invariant:
  assumes "provisioned d0 d" and "T \<in> set (clients d)" and "c_admin_user_id T = Some a"
    and "T \<notin> set (clients d0) \<or> admin_profile_ok d0 T"
  shows "(\<exists>P. P \<in> set (profiles d) \<and> p_user_id P = a) \<and>
         (\<forall>P. P \<in> set (profiles d) \<and> p_user_id P = a \<longrightarrow>
              p_tenant_level P = Some ''tenant_admin'' \<and> p_client_id P = Some (c_id T))"
proof -
  from provisioned_rows [OF assms(1,2)] provisioned_keeps_ok [OF assms(1), of T] assms(4)
  have "admin_profile_ok d T" by auto
  with assms(3)
  have ne: "filter (\<lambda>p. p_user_id p = a) (profiles d) \<noteq> []"
    and all: "list_all (\<lambda>p. p_tenant_level p = Some ''tenant_admin'' \<and>
                        p_client_id p = Some (c_id T))
            (filter (\<lambda>p. p_user_id p = a) (profiles d))"
    by (simp_all add: admin_profile_ok_def)
  from ne have "\<exists>P. P \<in> set (profiles d) \<and> p_user_id P = a"
    by (auto simp: filter_empty_conv)
  moreover from all have "\<forall>P. P \<in> set (profiles d) \<and> p_user_id P = a \<longrightarrow>
              p_tenant_level P = Some ''tenant_admin'' \<and> p_client_id P = Some (c_id T)"
    by (auto simp: list_all_iff)
  ultimately show ?thesis by blast
qed

theorem active_tenant_invariant_witness:
  "provisioned db0 db1 \<and> acme_row \<in> set (clients db1) \<and>
   c_admin_user_id acme_row = Some ''u-new'' \<and> acme_row \<notin> set (clients db0) \<and>
   (\<exists>P. P \<in> set (profiles db1) \<and> p_user_id P = ''u-new'' \<and>
        p_tenant_level P = Some ''tenant_admin'' \<and> p_client_id P = Some ''t-b'')"
proof -
  have p: "provisioned db0 db1"
    by (rule provisioned.run [OF provisioned.start acme_run])
  have m: "acme_row \<in> set (clients db1)" by (simp add: db1_def acme_row_def)
  have a: "c_admin_user_id acme_row = Some ''u-new''" by (simp add: acme_row_def)
  have n: "acme_row \<notin> set (clients db0)" by (simp add: db0_def acme_row_def)
  from active_tenant_invariant [OF p m a] n
  have "(\<exists>P. P \<in> set (profiles db1) \<and> p_user_id P = ''u-new'') \<and>
         (\<forall>P. P \<in> set (profiles db1) \<and> p_user_id P = ''u-new'' \<longrightarrow>
              p_tenant_level P = Some ''tenant_admin'' \<and> p_client_id P = Some (c_id acme_row))"
    by simp
  then have "\<exists>P. P \<in> set (profiles db1) \<and> p_user_id P = ''u-new'' \<and>
        p_tenant_level P = Some ''tenant_admin'' \<and> p_client_id P = Some ''t-b''"
    by (auto simp: acme_row_def)
  with p m a n show ?thesis by blast
qed

subsection \<open>Tenant names\<close>

lemma names_unique_preserved:
  assumes run: "onSubmit env d user data = (r, d')" and uniq: "names_unique d"
  shows "names_unique d'"
proof -
  from onSubmit_clients [OF run]
  consider "clients d' = clients d"
    | row where "\<not> list_ex (\<lambda>c. c_name c = tenantName data) (clients d)"
        "c_name row = tenantName data" "clients d' = clients d @ [row]"
    by auto
  then show ?thesis
  proof cases
    case 1
    with uniq show ?thesis by (simp add: names_unique_def)
  next
    case 2
    from 2(1) have "tenantName data \<notin> set (map c_name (clients d))"
      by (auto simp: list_ex_iff)
    with uniq 2(2,3) show ?thesis by (simp add: names_unique_def)
  qed
qed

lemma names_after_update:
  "map c_name (map (\<lambda>c. if c_id c = i
                        then (case v of None \<Rightarrow> c | Some a \<Rightarrow> c\<lparr>c_admin_user_id := Some a\<rparr>)
                        else c) cs) = map c_name cs"
  by (induction cs) (auto split: option.splits)

lemma created_has_name:
  assumes run: "onSubmit env d user data = (Created cr, d')"
  shows "list_ex (\<lambda>c. c_name c = tenantName data) (clients d')"
  using run
proof (cases rule: onSubmit_cases)
  case (completed uid row rh d2 cr' al)
  have nm: "c_name row = tenantName data"
    using clients_insert_frame(1) [OF completed(2)] by simp
  have c2: "clients d2 = clients d @ [row]"
    using handler_clients [OF completed(3)] by simp
  from completed(9) have "clients d' = clients d2 \<or>
      clients d' = map (\<lambda>c. if c_id c = c_id row
                        then (case user_id_of (content rh) of None \<Rightarrow> c
                              | Some a \<Rightarrow> c\<lparr>c_admin_user_id := Some a\<rparr>)
                        else c) (clients d2)"
    by auto
  then have "map c_name (clients d') = map c_name (clients d2)"
    using names_after_update [of "c_id row" "user_id_of (content rh)" "clients d2"]
    by (elim disjE) (simp_all only:)
  then have "tenantName data \<in> set (map c_name (clients d'))"
    by (simp add: c2 nm)
  then show ?thesis unfolding list_ex_iff by auto
qed simp_all

lemma tenant_type_text_ok: "tenant_type_check (Some (tenant_type_text ty))"
  by (cases ty) (simp_all add: tenant_type_check_def)

lemma name_conflict:
  assumes run: "onSubmit env d user data = (r, d')"
    and taken: "list_ex (\<lambda>c. c_name c = tenantName data) (clients d)"
  shows "d' = d" and "\<exists>e. r = Failed e"
    and "truthy user \<and> \<not> unavailable env ClientsInsert \<and> is_super_admin d (the user) \<longrightarrow>
         (\<exists>k. r = Failed (Pg (UniqueViolation k)))"
  using run taken tenant_type_text_ok [of "tenantType data"]
  by (auto simp: onSubmit_def clients_insert_def Let_def split: if_splits)

subsection \<open>A run that goes through\<close>

lemma user_roles_insert_rows_ok:
  assumes "distinct (map r_id rs)"
    and "\<And>r. r \<in> set rs \<Longrightarrow> \<not> list_ex (same_pair \<lparr>ur_user_id = u, ur_role_id = r_id r\<rparr>) (user_roles d)"
    and "references_auth_users d (Some u)"
    and "\<And>r. r \<in> set rs \<Longrightarrow> references_roles d (r_id r)"
  shows "\<exists>d'. user_roles_insert_rows d (map (\<lambda>r. \<lparr>ur_user_id = u, ur_role_id = r_id r\<rparr>) rs) = Inr d'"
  using assms
proof (induction rs arbitrary: d)
  case Nil
  then show ?case by simp
next
  case (Cons r rs)
  let ?d = "d\<lparr>user_roles := user_roles d @ [\<lparr>ur_user_id = u, ur_role_id = r_id r\<rparr>]\<rparr>"
  have "\<exists>d'. user_roles_insert_rows ?d (map (\<lambda>r. \<lparr>ur_user_id = u, ur_role_id = r_id r\<rparr>) rs) = Inr d'"
  proof (rule Cons.IH)
    show "distinct (map r_id rs)" using Cons.prems(1) by simp
    show "\<not> list_ex (same_pair \<lparr>ur_user_id = u, ur_role_id = r_id x\<rparr>) (user_roles ?d)"
      if "x \<in> set rs" for x
    proof -
      from that Cons.prems(1) have "r_id x \<noteq> r_id r" by (metis distinct.simps(2) image_eqI list.simps(9) set_map)
      moreover from that Cons.prems(2) [of x]
      have "\<not> list_ex (same_pair \<lparr>ur_user_id = u, ur_role_id = r_id x\<rparr>) (user_roles d)"
        by simp
      ultimately show ?thesis by (simp add: same_pair_def)
    qed
    show "references_auth_users ?d (Some u)"
      using Cons.prems(3) by (simp add: references_auth_users_def)
    show "references_roles ?d (r_id x)" if "x \<in> set rs" for x
      using Cons.prems(4) [of x] that by (simp add: references_roles_def)
  qed
  with Cons.prems(2) [of r] Cons.prems(3) Cons.prems(4) [of r] show ?case by simp
qed

lemma is_super_admin_cong:
  "user_roles d' = user_roles d \<Longrightarrow> roles d' = roles d \<Longrightarrow>
   is_super_admin d' u = is_super_admin d u"
  by (simp add: is_super_admin_def)

lemma is_super_admin_grows:
  assumes "is_super_admin d u" and "roles d' = roles d"
    and "user_roles d' = user_roles d @ rows"
  shows "is_super_admin d' u"
  using assms by (auto simp: is_super_admin_def list_ex_iff)

lemma store_fields [simp]:
  "roles (store_created env d p) = roles d"
  "roles (store_profiled env d c p) = roles d"
  "auth_users (store_profiled env d c p) = auth_users (store_created env d p)"
  "tenant_audit_log (store_profiled env d c p) = tenant_audit_log d"
  by (simp_all add: store_profiled_def store_created_def)

lemma createUser_ok:
  assumes "\<not> unavailable env AuthCreateUser" and "fresh_user env d p"
    and "tenant_level_check (Some (payload_tenant_level p))"
  shows "auth_admin_createUser env d (payload_email p) (payload_password env p)
           (payload_name p) (payload_tenant_level p) = Inr (new_user_id env, store_created env d p)"
  using assms
  by (simp add: auth_admin_createUser_def handle_new_user_def fresh_user_def
                store_created_def Let_def)

lemma profiles_update_ok:
  assumes "\<not> unavailable env ProfilesUpdate"
    and "tenant_level_check (Some (payload_tenant_level p))"
    and "references_clients d (rq_client_id p)"
    and super: "is_super_admin d c"
  shows "profiles_update_eq_user_id env (store_created env d p) c (new_user_id env)
           (payload_name p) (rq_client_id p) (payload_tenant_level p) (payload_email p) =
         Inr (store_profiled env d c p)"
proof -
  have may: "profiles_update_policy (store_created env d p) c q" for q
    using super by (simp add: super_admin_may_update)
  have "list_ex (\<lambda>q. p_user_id q = new_user_id env) (profiles (store_created env d p))"
    by (simp add: profiles_store_created)
  moreover have "references_clients (store_created env d p) (rq_client_id p)"
    using assms(3) by (simp add: references_clients_def split: option.splits)
  ultimately show ?thesis
    using assms(1,2)
    by (simp add: profiles_update_eq_user_id_def store_profiled_def may list_all_iff)
qed

lemma assign_roles_ok:
  assumes avail: "\<not> unavailable env RolesSelect" "\<not> unavailable env UserRolesInsert"
    and nor: "\<not> list_ex (\<lambda>ur. ur_user_id ur = new_user_id env) (user_roles d)"
    and dist: "distinct (map r_id (filter (\<lambda>r. r_name r \<in> set (payload_role_names p)) (roles d)))"
    and super: "is_super_admin d c"
  shows "assign_roles_by_name env (store_profiled env d c p) c (new_user_id env) p =
           (Response 200 (CreatedBody (new_user_id env) (payload_email p)),
            (store_profiled env d c p)\<lparr>user_roles := user_roles d @ new_assignments env d p\<rparr>)"
proof -
  let ?d2 = "store_profiled env d c p"
  let ?rs = "filter (\<lambda>r. r_name r \<in> set (payload_role_names p)) (roles d)"
  have same: "?d2\<lparr>user_roles := user_roles d @ []\<rparr> = ?d2"
    by (simp add: store_profiled_def store_created_def)
  have super2: "is_super_admin ?d2 c"
    using super by (simp add: is_super_admin_def)
  have insert_ok: "\<exists>d'. user_roles_insert_rows ?d2
          (map (\<lambda>r. \<lparr>ur_user_id = new_user_id env, ur_role_id = r_id r\<rparr>) ?rs) = Inr d'"
  proof (rule user_roles_insert_rows_ok [OF dist])
    show "\<not> list_ex (same_pair \<lparr>ur_user_id = new_user_id env, ur_role_id = r_id r\<rparr>)
              (user_roles ?d2)" for r
      using nor by (auto simp: list_ex_iff same_pair_def)
    show "references_auth_users ?d2 (Some (new_user_id env))"
      by (simp add: references_auth_users_def store_created_def)
    show "references_roles ?d2 (r_id r)" if "r \<in> set ?rs" for r
      using that by (auto simp: references_roles_def list_ex_iff)
  qed
  then obtain d3 where d3: "user_roles_insert_rows ?d2 (new_assignments env d p) = Inr d3"
    by (auto simp: new_assignments_def)
  from user_roles_insert_rows_frame [OF d3]
  have d3': "d3 = ?d2\<lparr>user_roles := user_roles d @ new_assignments env d p\<rparr>" by simp
  show ?thesis
  proof (cases "payload_role_names p = []")
    case True
    then show ?thesis by (simp add: assign_roles_by_name_def new_assignments_def same)
  next
    case False
    show ?thesis
    proof (cases "?rs = []")
      case True
      with False avail show ?thesis
        by (simp add: assign_roles_by_name_def roles_select_in_def new_assignments_def same)
    next
      case nonempty: False
      with False avail d3 d3' super2 show ?thesis
        by (simp add: assign_roles_by_name_def roles_select_in_def user_roles_insert_rls_def
                      new_assignments_def)
    qed
  qed
qed

lemma create_user_ok:
  assumes "\<not> unavailable env AuthCreateUser" "\<not> unavailable env ProfilesUpdate"
    "\<not> unavailable env RolesSelect" "\<not> unavailable env UserRolesInsert"
    and "fresh_user env d p"
    and "tenant_level_check (Some (payload_tenant_level p))"
    and "references_clients d (rq_client_id p)"
    and "\<not> list_ex (\<lambda>ur. ur_user_id ur = new_user_id env) (user_roles d)"
    and "distinct (map r_id (filter (\<lambda>r. r_name r \<in> set (payload_role_names p)) (roles d)))"
    and "is_super_admin d c"
  shows "create_user env d c p =
           (Response 200 (CreatedBody (new_user_id env) (payload_email p)),
            (store_profiled env d c p)\<lparr>user_roles := user_roles d @ new_assignments env d p\<rparr>)"
  using createUser_ok [OF assms(1,5,6)] profiles_update_ok [OF assms(2,6,7,10)]
    assign_roles_ok [OF assms(3,4,8,9,10)]
  by (simp add: create_user_def)

lemma admin_request_fields [simp]:
  "payload_email (admin_request data pw row) = adminEmail data"
  "payload_tenant_level (admin_request data pw row) = ''tenant_admin''"
  "payload_role_names (admin_request data pw row) = [''Tenant Admin'']"
  "rq_client_id (admin_request data pw row) = Some (c_id row)"
  "rq_email (admin_request data pw row) = Some (adminEmail data)"
  by (simp_all add: admin_request_def payload_email_def payload_tenant_level_def
                    payload_role_names_def)

text \<open>When nothing stands in its way, a run of the form creates the tenant and its admin.\<close>

lemma onSubmit_ok:
  assumes ready: "provisionable env d user data"
  shows "\<exists>d'. onSubmit env d user data =
           (Created \<lparr>cc_tenantId = new_client_id env, cc_tenantName = tenantName data,
                     cc_adminEmail = adminEmail data,
                     cc_adminPassword = resolve_password env data,
                     cc_adminUserId = Some (new_user_id env)\<rparr>, d')"
proof -
  from ready obtain uid where uid: "user = Some uid" and logged: "truthy user"
    by (cases user) (auto simp: provisionable_def truthy_def)
  from ready uid have super: "is_super_admin d uid" and known: "references_auth_users d (Some uid)"
    and avail: "\<not> unavailable env ClientsInsert" "\<not> unavailable env FunctionsInvoke"
      "\<not> unavailable env RpcIsSuperAdmin" "\<not> unavailable env AuthCreateUser"
      "\<not> unavailable env ProfilesUpdate" "\<not> unavailable env RolesSelect"
      "\<not> unavailable env UserRolesInsert" "\<not> unavailable env ClientsUpdate"
    and conf: "truthy (SUPABASE_URL env)" "truthy (SUPABASE_SERVICE_ROLE_KEY env)"
    and newc: "\<not> list_ex (\<lambda>c. c_id c = new_client_id env) (clients d)"
      "\<not> list_ex (\<lambda>c. c_name c = tenantName data) (clients d)"
    and mail: "adminEmail data \<noteq> []"
      "\<not> list_ex (\<lambda>a. au_email a = adminEmail data) (auth_users d)"
    and newu: "\<not> list_ex (\<lambda>a. au_id a = new_user_id env) (auth_users d)"
      "\<not> list_ex (\<lambda>q. p_user_id q = new_user_id env) (profiles d)"
      "\<not> list_ex (\<lambda>ur. ur_user_id ur = new_user_id env) (user_roles d)"
    and dist: "distinct (map r_id (filter (\<lambda>r. r_name r = ''Tenant Admin'') (roles d)))"
    by (simp_all add: provisionable_def)
  define row where "row = \<lparr>c_id = new_client_id env, c_name = tenantName data,
      c_email = tenantEmail data, c_tenant_type = Some (tenant_type_text (tenantType data)),
      c_created_by = Some uid, c_admin_user_id = None,
      c_settings = [(''status'', ''active''), (''created_via'', ''msp_admin_panel'')]\<rparr>"
  define d1 where "d1 = d\<lparr>clients := clients d @ [row]\<rparr>"
  define p where "p = admin_request data (resolve_password env data) row"
  define d2 where "d2 = (store_profiled env d1 uid p)\<lparr>user_roles :=
                           user_roles d1 @ new_assignments env d1 p\<rparr>"
  have ins: "clients_insert env d uid (tenantName data) (tenantEmail data)
               (tenant_type_text (tenantType data)) = Inr (row, d1)"
    using avail(1) super known newc tenant_type_text_ok [of "tenantType data"]
    by (simp add: clients_insert_def row_def d1_def Let_def)
  have d1_same: "auth_users d1 = auth_users d" "profiles d1 = profiles d"
    "user_roles d1 = user_roles d" "roles d1 = roles d" "clients d1 = clients d @ [row]"
    by (simp_all add: d1_def)
  have super1: "is_super_admin d1 uid"
    using super by (simp add: is_super_admin_def d1_same)
  have cu: "create_user env d1 uid p =
      (Response 200 (CreatedBody (new_user_id env) (payload_email p)), d2)"
    unfolding d2_def
  proof (rule create_user_ok [OF avail(4,5,6,7)])
    show "fresh_user env d1 p"
      using mail(2) newu(1,2) by (simp add: fresh_user_def d1_same p_def)
    show "tenant_level_check (Some (payload_tenant_level p))"
      by (simp add: p_def tenant_level_check_def)
    show "references_clients d1 (rq_client_id p)"
      by (simp add: p_def references_clients_def d1_same)
    show "\<not> list_ex (\<lambda>ur. ur_user_id ur = new_user_id env) (user_roles d1)"
      using newu(3) by (simp add: d1_same)
    show "distinct (map r_id (filter (\<lambda>r. r_name r \<in> set (payload_role_names p)) (roles d1)))"
      using dist by (simp add: p_def d1_same)
    show "is_super_admin d1 uid" by (rule super1)
  qed
  have h: "handler env d1 \<lparr>rq_method = ''POST'', rq_caller = Some uid, rq_body = Some p\<rparr> =
      (Response 200 (CreatedBody (new_user_id env) (adminEmail data)), d2)"
    using conf super1 avail(3) mail(1) cu
    by (simp add: handler_def isSuperAdmin_def truthy_def p_def)
  have inv: "functions_invoke env d1 uid p =
      (Inr (CreatedBody (new_user_id env) (adminEmail data)), d2)"
    using avail(2) h by (simp add: functions_invoke_def)
  have super2: "is_super_admin d2 uid"
    by (rule is_super_admin_grows [OF super1, of _ "new_assignments env d1 p"])
       (simp_all add: d2_def)
  have c2: "clients d2 = clients d @ [row]" by (simp add: d2_def d1_same)
  have known2: "references_auth_users d2 (Some (new_user_id env))"
    by (simp add: d2_def references_auth_users_def store_created_def)
  have "\<exists>d3. clients_update_eq_id env d2 uid (c_id row) (Some (new_user_id env)) = Inr d3"
    using avail(8) super2 known2 by (simp add: clients_update_eq_id_def c2)
  then obtain d3 where upd: "clients_update_eq_id env d2 uid (c_id row)
      (user_id_of (CreatedBody (new_user_id env) (adminEmail data))) = Inr d3"
    by auto
  have "onSubmit env d user data =
      (Created \<lparr>cc_tenantId = new_client_id env, cc_tenantName = tenantName data,
                cc_adminEmail = adminEmail data,
                cc_adminPassword = resolve_password env data,
                cc_adminUserId = Some (new_user_id env)\<rparr>,
       log_the_action env d3 uid (audit_entry uid data row))"
    using logged uid ins inv [unfolded p_def] upd
    by (simp add: onSubmit_def row_def)
  then show ?thesis by blast
qed

subsection \<open>Two runs with one name\<close>

text \<open>
  C9: tenant names stay unique through every run of the form. Of two runs with the
  same name, the first succeeds when nothing else stands in its way; and once it has
  succeeded the second fails and leaves the whole store as it was, with the uniqueness
  violation of the store as its error whenever it got as far as the insertion (a
  logged-in super admin, the store reachable).
\<close>

theorem tenant_name_unique:
  assumes first: "onSubmit env_a d user_a data_a = (r_a, d_a)"
    and second: "onSubmit env_b d_a user_b data_b = (r_b, d_b)"
    and same: "tenantName data_b = tenantName data_a"
    and uniq: "names_unique d"
  shows "names_unique d_a \<and> names_unique d_b \<and>
         (provisionable env_a d user_a data_a \<longrightarrow> (\<exists>cr. r_a = Created cr)) \<and>
         ((\<exists>cr. r_a = Created cr) \<longrightarrow>
            d_b = d_a \<and> (\<exists>e. r_b = Failed e) \<and>
            (truthy user_b \<and> \<not> unavailable env_b ClientsInsert \<and>
             is_super_admin d_a (the user_b) \<longrightarrow>
               (\<exists>k. r_b = Failed (Pg (UniqueViolation k)))))"
proof -
  have ua: "names_unique d_a" by (rule names_unique_preserved [OF first uniq])
  have ub: "names_unique d_b" by (rule names_unique_preserved [OF second ua])
  have "d_b = d_a \<and> (\<exists>e. r_b = Failed e) \<and>
            (truthy user_b \<and> \<not> unavailable env_b ClientsInsert \<and>
             is_super_admin d_a (the user_b) \<longrightarrow>
               (\<exists>k. r_b = Failed (Pg (UniqueViolation k))))"
    if "r_a = Created cr" for cr
  proof -
    from created_has_name [OF first [unfolded that]] same
    have taken: "list_ex (\<lambda>c. c_name c = tenantName data_b) (clients d_a)" by simp
    from name_conflict [OF second taken] show ?thesis by blast
  qed
  moreover have "\<exists>cr. r_a = Created cr" if "provisionable env_a d user_a data_a"
    using onSubmit_ok [OF that] first by auto
  ultimately show ?thesis using ua ub by blast
qed

lemma acme_again:
  "onSubmit env_next db1 (Some ''u-root'') acme_data =
     (Failed (Pg (UniqueViolation ''clients_name_key'')), db1)"
  by (simp add: run_defs db1_def env0_def env_next_def acme_data_def)

theorem tenant_name_unique_witness:
  "names_unique db0 \<and> provisionable env0 db0 (Some ''u-root'') acme_data \<and>
   onSubmit env0 db0 (Some ''u-root'') acme_data = (Created acme_credentials, db1) \<and>
   onSubmit env_next db1 (Some ''u-root'') acme_data =
     (Failed (Pg (UniqueViolation ''clients_name_key'')), db1) \<and>
   names_unique db1"
proof -
  have u: "names_unique db0" by (simp add: names_unique_def db0_def)
  have p: "provisionable env0 db0 (Some ''u-root'') acme_data"
    by (simp add: provisionable_def truthy_def is_super_admin_def references_auth_users_def
                  db0_def env0_def acme_data_def)
  from tenant_name_unique [OF acme_run acme_again refl u]
  have "names_unique db1" by blast
  with u p acme_run acme_again show ?thesis by blast
qed

subsection \<open>Assigning and removing a role twice\<close>

lemma same_pair_iff:
  "list_ex (same_pair \<lparr>ur_user_id = P, ur_role_id = R\<rparr>) xs \<longleftrightarrow>
   list_ex (\<lambda>ur. ur_user_id ur = P \<and> ur_role_id ur = R) xs"
  by (auto simp: list_ex_iff same_pair_def)

lemma assign_held:
  assumes "list_ex (\<lambda>ur. ur_user_id ur = P \<and> ur_role_id ur = R) (user_roles d)"
  shows "\<exists>m. assignRole env d uid P R = (ToastError m, d)"
proof -
  from assms have "\<exists>e. user_roles_insert_rls env d uid [\<lparr>ur_user_id = P, ur_role_id = R\<rparr>] = Inl e"
    by (simp add: user_roles_insert_rls_def same_pair_iff)
  then show ?thesis by (auto simp: assignRole_def)
qed

lemma remove_absent:
  assumes "\<not> list_ex (\<lambda>ur. ur_user_id ur = P \<and> ur_role_id ur = R) (user_roles d)"
    and "\<not> unavailable env UserRolesDelete"
  shows "removeRole env d uid P R = (ToastSuccess ''Role removed successfully'', d)"
proof -
  from assms(1)
  have "filter (\<lambda>ur. \<not> (ur_user_id ur = P \<and> ur_role_id ur = R)) (user_roles d) = user_roles d"
    by (auto simp: list_ex_iff filter_id_conv)
  then have "user_roles_delete_rls env d uid P R = Inr d"
    using assms(2) by (simp add: user_roles_delete_rls_def)
  then show ?thesis by (simp add: removeRole_def)
qed

text \<open>
  C6, as the code has it: assigning a role the principal already holds leaves the role
  assignments as they were, and is reported as an error (the pair is unique in
  \<open>user_roles\<close>, and the form inserts); removing a role the principal does not hold is
  a success that changes nothing, whenever the store answers.
\<close>

theorem role_assignment_repeated:
  "(list_ex (\<lambda>ur. ur_user_id ur = P \<and> ur_role_id ur = R) (user_roles d) \<longrightarrow>
      (\<exists>m. assignRole env d uid P R = (ToastError m, d))) \<and>
   (\<not> list_ex (\<lambda>ur. ur_user_id ur = P' \<and> ur_role_id ur = R') (user_roles d) \<and>
    \<not> unavailable env UserRolesDelete \<longrightarrow>
      removeRole env d uid P' R' = (ToastSuccess ''Role removed successfully'', d))"
  using assign_held remove_absent by blast

theorem role_assignment_repeated_witness:
  "list_ex (\<lambda>ur. ur_user_id ur = ''u-alice'' \<and> ur_role_id ur = ''r-tadmin'') (user_roles db0) \<and>
   (\<exists>m. assignRole env0 db0 ''u-root'' ''u-alice'' ''r-tadmin'' = (ToastError m, db0)) \<and>
   \<not> list_ex (\<lambda>ur. ur_user_id ur = ''u-alice'' \<and> ur_role_id ur = ''r-soc'') (user_roles db0) \<and>
   \<not> unavailable env0 UserRolesDelete \<and>
   removeRole env0 db0 ''u-root'' ''u-alice'' ''r-soc'' =
     (ToastSuccess ''Role removed successfully'', db0)"
proof -
  have h: "list_ex (\<lambda>ur. ur_user_id ur = ''u-alice'' \<and> ur_role_id ur = ''r-tadmin'') (user_roles db0)"
    by (simp add: db0_def)
  have n: "\<not> list_ex (\<lambda>ur. ur_user_id ur = ''u-alice'' \<and> ur_role_id ur = ''r-soc'') (user_roles db0)"
    by (simp add: db0_def)
  have u: "\<not> unavailable env0 UserRolesDelete" by (simp add: env0_def)
  from role_assignment_repeated [of "''u-alice''" "''r-tadmin''" db0 env0 "''u-root''"
         "''u-alice''" "''r-soc''"] h n u
  show ?thesis by blast
qed

theorem assign_held_role_counterexample:
  "list_ex (\<lambda>ur. ur_user_id ur = ''u-alice'' \<and> ur_role_id ur = ''r-tadmin'') (user_roles db0) \<and>
   is_super_admin db0 ''u-root'' \<and>
   assignRole env0 db0 ''u-root'' ''u-alice'' ''r-tadmin'' =
     (ToastError (''duplicate key value violates unique constraint '' @
                  quoted ''user_roles_user_id_role_id_key''),
      db0)"
  by (simp add: run_defs db0_def env0_def)

subsection \<open>Role names that match no role\<close>

lemma payload_without_role_names [simp]:
  "payload_email (p\<lparr>rq_role_names := v\<rparr>) = payload_email p"
  "payload_password env (p\<lparr>rq_role_names := v\<rparr>) = payload_password env p"
  "payload_name (p\<lparr>rq_role_names := v\<rparr>) = payload_name p"
  "payload_tenant_level (p\<lparr>rq_role_names := v\<rparr>) = payload_tenant_level p"
  by (simp_all add: payload_email_def payload_password_def payload_name_def
                    payload_tenant_level_def)

lemma unknown_name_filter:
  assumes "\<not> list_ex (\<lambda>r. r_name r = n) rs"
  shows "filter (\<lambda>r. r_name r \<in> set (n # ns)) rs = filter (\<lambda>r. r_name r \<in> set ns) rs"
  using assms by (induction rs) auto

text \<open>
  C4, as the code has it: when a create-user request succeeds, the role assignments it
  has created are those of the roles whose name is in \<open>role_names\<close>, in the order of the
  catalogue, and nothing else; and a name that matches no role changes neither the
  response nor the store, next to at least one other name.
\<close>

theorem unknown_role_names_dropped:
  "(handler env d req = (Response 200 b, d') \<and> rq_body req = Some p \<longrightarrow>
      user_roles d' = user_roles d @
        map (\<lambda>r. \<lparr>ur_user_id = new_user_id env, ur_role_id = r_id r\<rparr>)
          (filter (\<lambda>r. r_name r \<in> set (payload_role_names p)) (roles d))) \<and>
   (rq_body req = Some p \<and> rq_role_names p = Some ns \<and> ns \<noteq> [] \<and>
    \<not> list_ex (\<lambda>r. r_name r = n) (roles d) \<longrightarrow>
      handler env d (req\<lparr>rq_body := Some (p\<lparr>rq_role_names := Some (n # ns)\<rparr>)\<rparr>) =
      handler env d req)"
proof -
  have first: "user_roles d' = user_roles d @
        map (\<lambda>r. \<lparr>ur_user_id = new_user_id env, ur_role_id = r_id r\<rparr>)
          (filter (\<lambda>r. r_name r \<in> set (payload_role_names p)) (roles d))"
    if "handler env d req = (Response 200 b, d')" "rq_body req = Some p"
    using handler_store [OF that(1)] that(2) by (auto simp: new_assignments_def)
  have second: "handler env d (req\<lparr>rq_body := Some (p\<lparr>rq_role_names := Some (n # ns)\<rparr>)\<rparr>) =
      handler env d req"
    if "rq_body req = Some p" "rq_role_names p = Some ns" "ns \<noteq> []"
       "\<not> list_ex (\<lambda>r. r_name r = n) (roles d)"
  proof -
    have roles_same: "roles x = roles d"
      if "auth_admin_createUser env d e pw nm lv = Inr (u, d1)"
         "profiles_update_eq_user_id env d1 cl u' nm' c lv' e' = Inr x"
      for x e pw nm lv u d1 cl u' nm' c lv' e'
      using createUser_frame(2) [OF that(1)] profiles_update_frame [OF that(2)] by simp
    have assign: "assign_roles_by_name env x cl u (p\<lparr>rq_role_names := Some (n # ns)\<rparr>) =
                  assign_roles_by_name env x cl u p" if "roles x = roles d" for x cl u
      using that \<open>rq_role_names p = Some ns\<close> \<open>ns \<noteq> []\<close>
        unknown_name_filter [OF \<open>\<not> list_ex (\<lambda>r. r_name r = n) (roles d)\<close>, of ns]
      by (simp add: assign_roles_by_name_def payload_role_names_def roles_select_in_def
               split: sum.splits)
    have "create_user env d cl (p\<lparr>rq_role_names := Some (n # ns)\<rparr>) = create_user env d cl p"
      for cl
      by (auto simp: create_user_def assign roles_same split: sum.splits prod.splits)
    with that(1) show ?thesis
      by (simp add: handler_def split: option.splits)
  qed
  from first second show ?thesis by blast
qed

theorem unknown_role_names_dropped_witness:
  "fst (handler env0 db0 soc_request) = Response 200 (CreatedBody ''u-new'' ''bob@a.com'') \<and>
   user_roles (snd (handler env0 db0 soc_request)) =
     user_roles db0 @ [\<lparr>ur_user_id = ''u-new'', ur_role_id = ''r-soc''\<rparr>] \<and>
   \<not> list_ex (\<lambda>r. r_name r = ''No Such Role'') (roles db0) \<and>
   handler env0 db0
     (soc_request\<lparr>rq_body := Some (soc_payload\<lparr>rq_role_names :=
        Some [''No Such Role'', ''SOC Analyst'']\<rparr>)\<rparr>) =
   handler env0 db0 soc_request"
proof -
  have ok: "fst (handler env0 db0 soc_request) = Response 200 (CreatedBody ''u-new'' ''bob@a.com'')"
    by (simp add: run_defs soc_request_def soc_payload_def db0_def env0_def)
  then have run: "handler env0 db0 soc_request =
      (Response 200 (CreatedBody ''u-new'' ''bob@a.com''), snd (handler env0 db0 soc_request))"
    by (metis prod.collapse)
  have body: "rq_body soc_request = Some soc_payload" by (simp add: soc_request_def)
  have names: "rq_role_names soc_payload = Some [''SOC Analyst'']" by (simp add: soc_payload_def)
  have unknown: "\<not> list_ex (\<lambda>r. r_name r = ''No Such Role'') (roles db0)"
    by (simp add: db0_def)
  note inst = unknown_role_names_dropped [of env0 db0 soc_request "CreatedBody ''u-new'' ''bob@a.com''"
      "snd (handler env0 db0 soc_request)" soc_payload "[''SOC Analyst'']" "''No Such Role''"]
  from inst run body have "user_roles (snd (handler env0 db0 soc_request)) =
     user_roles db0 @ map (\<lambda>r. \<lparr>ur_user_id = new_user_id env0, ur_role_id = r_id r\<rparr>)
          (filter (\<lambda>r. r_name r \<in> set (payload_role_names soc_payload)) (roles db0))"
    by blast
  then have rows: "user_roles (snd (handler env0 db0 soc_request)) =
     user_roles db0 @ [\<lparr>ur_user_id = ''u-new'', ur_role_id = ''r-soc''\<rparr>]"
    by (simp add: payload_role_names_def soc_payload_def db0_def env0_def)
  from inst body names unknown
  have "handler env0 db0
     (soc_request\<lparr>rq_body := Some (soc_payload\<lparr>rq_role_names :=
        Some [''No Such Role'', ''SOC Analyst'']\<rparr>)\<rparr>) = handler env0 db0 soc_request"
    by blast
  with ok rows unknown show ?thesis by blast
qed

theorem unknown_role_name_counterexample:
  "\<not> list_ex (\<lambda>r. r_name r = ''No Such Role'') (roles db0) \<and>
   fst (handler env0 db0 unknown_role_request) =
     Response 200 (CreatedBody ''u-new'' ''bob@a.com'') \<and>
   user_roles (snd (handler env0 db0 unknown_role_request)) = user_roles db0"
  by (simp add: run_defs unknown_role_request_def db0_def env0_def)

subsection \<open>A principal that exists already\<close>

lemma handler_existing_email:
  assumes run: "handler env d req = (r, d')" and body: "rq_body req = Some p"
    and ex: "list_ex (\<lambda>a. au_email a = payload_email p) (auth_users d)"
  shows "d' = d \<and> 400 \<le> status r"
  using handler_store [OF run] body ex by (auto simp: fresh_user_def)

lemma onSubmit_existing_email:
  assumes run: "onSubmit env d user data = (r, d')"
    and ex: "list_ex (\<lambda>a. au_email a = adminEmail data) (auth_users d)"
  shows "(\<exists>e. r = Failed e) \<and>
         (d' = d \<or> (\<exists>row. c_admin_user_id row = None \<and> d' = d\<lparr>clients := clients d @ [row]\<rparr>))"
proof -
  have none: "c_admin_user_id row = None"
    if "clients_insert env d uid (tenantName data) (tenantEmail data)
         (tenant_type_text (tenantType data)) = Inr (row, d1)" for uid row d1
    using clients_insert_frame(1) [OF that] by simp
  have stop: "d2 = d\<lparr>clients := clients d @ [row]\<rparr> \<and> 400 \<le> status rh"
    if "handler env (d\<lparr>clients := clients d @ [row]\<rparr>)
         \<lparr>rq_method = ''POST'', rq_caller = Some uid,
          rq_body = Some (admin_request data (resolve_password env data) row)\<rparr> = (rh, d2)"
    for uid row rh d2
    using handler_existing_email [OF that, of "admin_request data (resolve_password env data) row"] ex
    by (simp add: admin_request_def payload_email_def)
  from run show ?thesis
  proof (cases rule: onSubmit_cases)
    case (early e)
    then show ?thesis by simp
  next
    case (fetch uid row)
    with none [OF fetch(2)] show ?thesis by blast
  next
    case (failed uid row rh d2 e)
    with none [OF failed(2)] stop [OF failed(3)] show ?thesis by blast
  next
    case (completed uid row rh d2 cr al)
    with stop [OF completed(3)] show ?thesis by simp
  qed
qed

text \<open>
  C5, as the code has it: when a principal exists already for the email, the edge
  function creates nothing, answers with an error status and leaves the store as it
  was; and a run of the form with that admin email fails, leaving behind at most a
  new row of \<open>clients\<close> without an admin. Nothing detects the principal and carries on.
\<close>

theorem existing_principal_not_resumed:
  "(handler env d req = (rh, dh) \<and> rq_body req = Some p \<and>
    list_ex (\<lambda>a. au_email a = payload_email p) (auth_users d) \<longrightarrow>
      dh = d \<and> 400 \<le> status rh) \<and>
   (onSubmit env d user data = (r, d') \<and>
    list_ex (\<lambda>a. au_email a = adminEmail data) (auth_users d) \<longrightarrow>
      (\<exists>e. r = Failed e) \<and>
      (d' = d \<or> (\<exists>row. c_admin_user_id row = None \<and> d' = d\<lparr>clients := clients d @ [row]\<rparr>)))"
  using handler_existing_email onSubmit_existing_email by blast

lemma retry_run:
  "onSubmit env_next db1 (Some ''u-root'') retry_data =
     (Failed (FunctionsHttpError 400), db1\<lparr>clients := clients db1 @ [retry_row]\<rparr>)"
  by (simp add: run_defs db1_def env0_def env_next_def acme_data_def retry_data_def
                retry_row_def password_loop.simps)

lemma retry_request_run:
  "handler env_next db1 retry_request =
     (Response 400 (ErrorBody ''A user with this email address has already been registered''), db1)"
  by (simp add: run_defs db1_def env0_def env_next_def retry_request_def retry_payload_def)

theorem existing_principal_not_resumed_witness:
  "list_ex (\<lambda>a. au_email a = ''admin@acme.com'') (auth_users db1) \<and>
   snd (handler env_next db1 retry_request) = db1 \<and>
   400 \<le> status (fst (handler env_next db1 retry_request)) \<and>
   (\<exists>e. fst (onSubmit env_next db1 (Some ''u-root'') retry_data) = Failed e) \<and>
   auth_users (snd (onSubmit env_next db1 (Some ''u-root'') retry_data)) = auth_users db1 \<and>
   profiles (snd (onSubmit env_next db1 (Some ''u-root'') retry_data)) = profiles db1 \<and>
   user_roles (snd (onSubmit env_next db1 (Some ''u-root'') retry_data)) = user_roles db1 \<and>
   tenant_audit_log (snd (onSubmit env_next db1 (Some ''u-root'') retry_data)) =
     tenant_audit_log db1"
proof -
  have ex: "list_ex (\<lambda>a. au_email a = ''admin@acme.com'') (auth_users db1)"
    by (simp add: db1_def)
  have body: "rq_body retry_request = Some retry_payload"
    by (simp add: retry_request_def)
  have pm: "payload_email retry_payload = ''admin@acme.com''"
    by (simp add: payload_email_def retry_payload_def)
  have mail: "adminEmail retry_data = ''admin@acme.com''"
    by (simp add: retry_data_def acme_data_def)
  note inst = existing_principal_not_resumed
    [of env_next db1 retry_request "fst (handler env_next db1 retry_request)"
        "snd (handler env_next db1 retry_request)" retry_payload "Some ''u-root''" retry_data
        "fst (onSubmit env_next db1 (Some ''u-root'') retry_data)"
        "snd (onSubmit env_next db1 (Some ''u-root'') retry_data)"]
  from inst body ex pm
  have h: "snd (handler env_next db1 retry_request) = db1 \<and>
           400 \<le> status (fst (handler env_next db1 retry_request))"
    by simp
  from inst ex mail
  have "(\<exists>e. fst (onSubmit env_next db1 (Some ''u-root'') retry_data) = Failed e) \<and>
      (snd (onSubmit env_next db1 (Some ''u-root'') retry_data) = db1 \<or>
       (\<exists>row. c_admin_user_id row = None \<and>
          snd (onSubmit env_next db1 (Some ''u-root'') retry_data) =
            db1\<lparr>clients := clients db1 @ [row]\<rparr>))"
    by simp
  then have "(\<exists>e. fst (onSubmit env_next db1 (Some ''u-root'') retry_data) = Failed e) \<and>
   auth_users (snd (onSubmit env_next db1 (Some ''u-root'') retry_data)) = auth_users db1 \<and>
   profiles (snd (onSubmit env_next db1 (Some ''u-root'') retry_data)) = profiles db1 \<and>
   user_roles (snd (onSubmit env_next db1 (Some ''u-root'') retry_data)) = user_roles db1 \<and>
   tenant_audit_log (snd (onSubmit env_next db1 (Some ''u-root'') retry_data)) =
     tenant_audit_log db1"
    by auto
  with ex h show ?thesis by blast
qed

theorem resume_counterexample:
  "list_ex (\<lambda>a. au_email a = adminEmail retry_data) (auth_users db1) \<and>
   onSubmit env_next db1 (Some ''u-root'') retry_data =
     (Failed (FunctionsHttpError 400), db1\<lparr>clients := clients db1 @ [retry_row]\<rparr>) \<and>
   c_admin_user_id retry_row = None \<and>
   handler env_next db1 retry_request =
     (Response 400 (ErrorBody ''A user with this email address has already been registered''), db1)"
  using retry_run retry_request_run
  by (simp add: db1_def retry_data_def acme_data_def retry_row_def)

subsection \<open>Passwords\<close>

lemma charAt_length: "i < length s \<Longrightarrow> length (charAt s i) = 1"
  by (simp add: charAt_def)

lemma charAt_set: "set (charAt s i) \<subseteq> set s"
  by (auto simp: charAt_def)

lemma password_loop_length:
  "i \<le> 12 \<Longrightarrow> (\<And>j. i \<le> j \<Longrightarrow> j < 12 \<Longrightarrow> rnd j < length chars) \<Longrightarrow>
   length (password_loop rnd i pw) = length pw + (12 - i)"
proof (induction rnd i pw rule: password_loop.induct)
  case (1 rnd i password)
  show ?case
  proof (cases "i < 12")
    case True
    then have "length (password_loop rnd (i + 1) (password @ charAt chars (rnd i))) =
               length (password @ charAt chars (rnd i)) + (12 - (i + 1))"
      using "1.prems" by (intro "1.IH") auto
    moreover have "length (charAt chars (rnd i)) = 1"
      using True "1.prems"(2) [of i] by (simp add: charAt_length)
    ultimately show ?thesis
      using True by (subst password_loop.simps) simp
  next
    case False
    with "1.prems"(1) show ?thesis
      by (subst password_loop.simps) simp
  qed
qed

lemma password_loop_set:
  "set (password_loop rnd i pw) \<subseteq> set pw \<union> set chars"
proof (induction rnd i pw rule: password_loop.induct)
  case (1 rnd i password)
  show ?case
  proof (cases "i < 12")
    case True
    from "1.IH" [OF True] charAt_set [of chars "rnd i"] True show ?thesis
      by (subst password_loop.simps) auto
  next
    case False
    then show ?thesis by (subst password_loop.simps) simp
  qed
qed

lemma generated_password_length:
  assumes "\<And>i. i < 12 \<Longrightarrow> rnd i < length chars"
  shows "length (generateSecurePassword rnd) = 12"
  unfolding generateSecurePassword_def
  using password_loop_length [of 0 rnd "[]"] assms by simp

lemma generated_password_alphabet:
  "set (generateSecurePassword rnd) \<subseteq> set chars"
  unfolding generateSecurePassword_def
  using password_loop_set [of rnd 0 "[]"] by simp

text \<open>Without a password in the payload, the edge function makes one of its own.\<close>

lemma payload_password_default:
  "\<not> truthy (rq_password p) \<Longrightarrow>
   payload_password env p = take 16 (filter (\<lambda>c. c \<noteq> CHR ''-'') (randomUUID env)) @ ''!''"
  by (simp add: payload_password_def)

text \<open>
  C3 at a concrete run. With auto-generate off and the custom password \<open>abcdefgh\<close>,
  eight lower-case letters, which meet neither the sentence the form shows under the
  field nor the policy of the specification, the form creates the tenant and its
  admin principal with that password: nothing rejects it before the principal is
  created. And the generator of the form can return twelve characters of one class.
\<close>

theorem custom_password_unchecked:
  "\<not> form_password_rule ''abcdefgh'' \<and>
   \<not> spec_password_policy ''abcdefgh'' \<and>
   fst (onSubmit env0 db0 (Some ''u-root'') custom_data) =
     Created (acme_credentials\<lparr>cc_adminPassword := ''abcdefgh''\<rparr>) \<and>
   list_ex (\<lambda>a. au_email a = ''admin@acme.com'' \<and> au_password a = ''abcdefgh'')
     (auth_users (snd (onSubmit env0 db0 (Some ''u-root'') custom_data))) \<and>
   generateSecurePassword (\<lambda>i. 0) = ''AAAAAAAAAAAA'' \<and>
   \<not> spec_password_policy (generateSecurePassword (\<lambda>i. 0))"
proof -
  have g: "generateSecurePassword (\<lambda>i. 0) = ''AAAAAAAAAAAA''"
    by (simp add: generateSecurePassword_def password_loop.simps charAt_def chars_def)
  have p1: "\<not> spec_password_policy ''AAAAAAAAAAAA''"
    by (simp add: spec_password_policy_def class_count_def is_upper_def is_lower_def
                  is_digit_def is_other_def)
  have p2: "\<not> spec_password_policy ''abcdefgh''"
    by (simp add: spec_password_policy_def)
  have p3: "\<not> form_password_rule ''abcdefgh''"
    by (simp add: form_password_rule_def is_digit_def)
  have run: "onSubmit env0 db0 (Some ''u-root'') custom_data =
     (Created (acme_credentials\<lparr>cc_adminPassword := ''abcdefgh''\<rparr>),
      db1\<lparr>auth_users := (butlast (auth_users db1)) @
             [(last (auth_users db1))\<lparr>au_password := ''abcdefgh''\<rparr>]\<rparr>)"
    by (simp add: run_defs db0_def env0_def acme_data_def custom_data_def db1_def
                  acme_credentials_def)
  show ?thesis
    unfolding run g using p1 p2 p3 by (simp add: db1_def)
qed

subsection \<open>Where the code falls short of its own rules\<close>

text \<open>
  The function answers 403 for one reason only, the caller's access to the client of
  the request: the role names have no part in it.
\<close>

lemma forbidden_only_by_client:
  assumes "handler env d req = (r, d')" and "status r = 403"
  shows "\<exists>c p. rq_caller req = Some c \<and> rq_body req = Some p \<and>
           \<not> isSuperAdmin env d c \<and> \<not> canAccessClient env d c (rq_client_id p)"
proof (cases "\<exists>c p. rq_body req = Some p \<and> rq_caller req = Some c \<and>
                handler env d req = create_user env d c p")
  case True
  then obtain c p where "create_user env d c p = (r, d')" using assms(1) by auto
  from create_user_store [OF this] assms(2) show ?thesis by auto
next
  case False
  with assms show ?thesis
    by (auto simp: handler_def split: if_splits option.splits)
qed

text \<open>A caller who is no super admin never gets a row into \<open>user_roles\<close>.\<close>

lemma no_role_row_for_others:
  assumes "handler env d req = (r, d')" and "rq_caller req = Some c"
    and "\<not> is_super_admin d c"
  shows "user_roles d' = user_roles d"
  using handler_store [OF assms(1)] assms(2,3) by auto

text \<open>
  C1 at a concrete request. Alice is the tenant admin of tenant A and no super admin.
  The form would not offer her the role Tenant Admin. The edge function, called with
  that role name, lets her through its authorization and creates the principal, with
  the profile the trigger gives it; that profile is not hers to update, and the
  insertion of the role is what the store refuses. The answer is 400, not 403, and
  the principal and its profile stay behind.
\<close>

theorem tenant_admin_escalation:
  "\<not> is_super_admin db0 ''u-alice'' \<and>
   is_tenant_admin db0 ''u-alice'' (Some ''t-a'') \<and>
   availableRoles False (roles db0) = [\<lparr>r_id = ''r-soc'', r_name = ''SOC Analyst''\<rparr>] \<and>
   fst (handler env0 db0 escalation_request) =
     Response 400 (ErrorBody (pg_message (RlsViolation ''user_roles''))) \<and>
   auth_users (snd (handler env0 db0 escalation_request)) =
     auth_users db0 @
       [\<lparr>au_id = ''u-new'', au_email = ''carol@a.com'', au_password = ''Correct-Horse-7'',
         au_meta_name = Some ''Carol'', au_meta_tenant_level = Some ''user''\<rparr>] \<and>
   profiles (snd (handler env0 db0 escalation_request)) =
     profiles db0 @
       [\<lparr>p_user_id = ''u-new'', p_display_name = Some ''Carol'',
         p_email = Some ''carol@a.com'', p_client_id = None,
         p_tenant_level = Some ''user''\<rparr>] \<and>
   user_roles (snd (handler env0 db0 escalation_request)) = user_roles db0"
  by (simp add: run_defs availableRoles_def escalation_request_def db0_def env0_def)

text \<open>
  C2 at a concrete run. Every step of the form succeeds but the insertion into the
  audit log, which fails; the form reports success and hands out the credentials, and
  the audit log has no entry.
\<close>

theorem audit_failure_unreported:
  "unavailable env_audit_down AuditInsert \<and>
   audit_insert env_audit_down db1 ''u-root'' (audit_entry ''u-root'' acme_data acme_row) =
     Inl Unavailable \<and>
   fst (onSubmit env_audit_down db0 (Some ''u-root'') acme_data) = Created acme_credentials \<and>
   snd (onSubmit env_audit_down db0 (Some ''u-root'') acme_data) =
     db1\<lparr>tenant_audit_log := []\<rparr>"
  by (simp add: run_defs env_audit_down_def db0_def env0_def acme_data_def db1_def
                acme_credentials_def password_loop.simps)

end
